theory Spec2Isabelle
  imports Complex_Main
begin

section \<open>Text primitives of the JavaScript runtime\<close>

text \<open>
  Strings are lists of code units; the model covers text whose code units lie below 256.
  The character classes are those of the regular expressions in the source:
  \<open>\s\<close> (white space), \<open>\w\<close> (letters, digits, underscore) and \<open>[A-Z]\<close>.
\<close>

definition is_space :: "char \<Rightarrow> bool" where
  "is_space c \<longleftrightarrow>
     c \<in> set [CHR 0x09, CHR 0x0A, CHR 0x0B, CHR 0x0C, CHR 0x0D, CHR 0x20, CHR 0xA0]"

definition upper_letters :: string where
  "upper_letters = ''ABCDEFGHIJKLMNOPQRSTUVWXYZ''"

definition lower_letters :: string where
  "lower_letters = ''abcdefghijklmnopqrstuvwxyz''"

definition is_upper :: "char \<Rightarrow> bool" where
  "is_upper c \<longleftrightarrow> c \<in> set upper_letters"

definition is_lower :: "char \<Rightarrow> bool" where
  "is_lower c \<longleftrightarrow> c \<in> set lower_letters"

definition is_digit :: "char \<Rightarrow> bool" where
  "is_digit c \<longleftrightarrow> c \<in> set ''0123456789''"

definition is_word_char :: "char \<Rightarrow> bool" where
  "is_word_char c \<longleftrightarrow> is_upper c \<or> is_lower c \<or> is_digit c \<or> c = CHR ''_''"

text \<open>\<open>text.split(/\s+/)\<close>: the pieces between maximal runs of white space; a run at
  either end leaves an empty piece there, and the empty string gives one empty piece.\<close>

function split_ws :: "string \<Rightarrow> string list" where
  "split_ws [] = [[]]"
| "split_ws (c # cs) =
     (if is_space c then [] # split_ws (dropWhile is_space cs)
      else (case split_ws cs of [] \<Rightarrow> [[c]] | p # ps \<Rightarrow> (c # p) # ps))"
  by pat_completeness auto
termination
  by (relation "measure length") (auto simp: le_imp_less_Suc length_dropWhile_le)

text \<open>\<open>w.replace(/[^\w\s]/g, '')\<close>: every code unit that is neither a word character
  nor white space is removed.\<close>

definition strip_punct :: "string \<Rightarrow> string" where
  "strip_punct w = filter (\<lambda>c. is_word_char c \<or> is_space c) w"

section \<open>Context store: name extraction\<close>

definition commonWords :: "string list" where
  "commonWords =
    [''The'', ''A'', ''An'', ''And'', ''But'', ''Or'', ''For'', ''Nor'', ''As'', ''At'',
     ''By'', ''For'', ''From'', ''In'', ''Into'', ''Near'', ''Of'', ''On'', ''To'', ''With'',
     ''Monday'', ''Tuesday'', ''Wednesday'', ''Thursday'', ''Friday'', ''Saturday'', ''Sunday'',
     ''January'', ''February'', ''March'', ''April'', ''May'', ''June'', ''July'',
     ''August'', ''September'', ''October'', ''November'', ''December'',
     ''I'', ''You'', ''He'', ''She'', ''It'', ''We'', ''They'']"

definition isCommonWord :: "string \<Rightarrow> bool" where
  "isCommonWord word \<longleftrightarrow> word \<in> set commonWords"

text \<open>The test of both loops of \<open>extractNamesFromText\<close>, applied to a word from which the
  punctuation has been removed:
  \<open>word.length > 1 && /^[A-Z]/.test(word) && !isCommonWord(word)\<close>.\<close>

definition is_name_word :: "string \<Rightarrow> bool" where
  "is_name_word word \<longleftrightarrow>
     length word > 1 \<and> (case word of [] \<Rightarrow> False | c # _ \<Rightarrow> is_upper c) \<and> \<not> isCommonWord word"

text \<open>The inner \<open>while (j < words.length)\<close> loop: it extends \<open>name\<close> with the following
  words as long as they pass the test, and returns the name and the final \<open>j\<close>.\<close>

function extend_name :: "string list \<Rightarrow> nat \<Rightarrow> string \<Rightarrow> string \<times> nat" where
  "extend_name words j name =
     (if j < length words then
        (let nextWord = strip_punct (words ! j) in
         if is_name_word nextWord then extend_name words (j + 1) (name @ '' '' @ nextWord)
         else (name, j))
      else (name, j))"
  by pat_completeness auto
termination
  by (relation "measure (\<lambda>(words, j, name). length words - j)") auto

declare extend_name.simps [simp del]

lemma extend_name_index: "j \<le> snd (extend_name words j name)"
proof (induction words j name rule: extend_name.induct)
  case (1 words j name)
  show ?case
  proof (cases "j < length words \<and> is_name_word (strip_punct (words ! j))")
    case True
    with "1.IH" [OF _ refl] have "j + 1 \<le> snd (extend_name words (j + 1) (name @ '' '' @ strip_punct (words ! j)))"
      by simp
    with True show ?thesis by (subst extend_name.simps) (simp add: Let_def)
  next
    case False
    then show ?thesis by (subst extend_name.simps) (auto simp: Let_def)
  qed
qed

text \<open>The outer \<open>for (let i = 0; i < words.length; i++)\<close> loop, with \<open>potentialNames\<close> as
  accumulator; after a name the loop continues at \<open>i = j - 1\<close>, then \<open>i++\<close>.\<close>

function scan_names :: "string list \<Rightarrow> nat \<Rightarrow> string list \<Rightarrow> string list" where
  "scan_names words i potentialNames =
     (if i < length words then
        (let word = strip_punct (words ! i) in
         if is_name_word word then
           (let r = extend_name words (i + 1) word
            in scan_names words ((snd r - 1) + 1) (potentialNames @ [fst r]))
         else scan_names words (i + 1) potentialNames)
      else potentialNames)"
  by pat_completeness auto
termination
proof (relation "measure (\<lambda>(words, i, acc). length words - i)", goal_cases)
  case 1
  show ?case by simp
next
  case (2 words i potentialNames word r)
  have "i + 1 \<le> snd (extend_name words (i + 1) word)" by (rule extend_name_index)
  with 2 show ?case by auto
next
  case (3 words i potentialNames word)
  then show ?case by auto
qed

declare scan_names.simps [simp del]

definition extractNamesFromText :: "string \<Rightarrow> string list" where
  "extractNamesFromText text = scan_names (split_ws text) 0 []"

text \<open>The grouping the loops compute, written on lists: a word that passes the test
  opens a name, the words after it that pass the test are appended to it with single
  spaces, and the scan resumes behind them.\<close>

fun join_words :: "string list \<Rightarrow> string" where
  "join_words [] = []"
| "join_words (w # ws) = foldl (\<lambda>name nextWord. name @ '' '' @ nextWord) w ws"

function merge_adjacent :: "(string \<Rightarrow> bool) \<Rightarrow> string list \<Rightarrow> string list" where
  "merge_adjacent cand [] = []"
| "merge_adjacent cand (w # ws) =
     (if cand w then join_words (w # takeWhile cand ws) # merge_adjacent cand (dropWhile cand ws)
      else merge_adjacent cand ws)"
  by pat_completeness auto
termination
  by (relation "measure (\<lambda>(cand, ws). length ws)") (auto simp: le_imp_less_Suc length_dropWhile_le)

text \<open>The rule in the words of the specification: a token is a candidate if it is
  capitalized and not in the stop-word list; adjacent candidates are merged.\<close>

definition spec_candidate :: "string \<Rightarrow> bool" where
  "spec_candidate token \<longleftrightarrow>
     (case token of [] \<Rightarrow> False | c # _ \<Rightarrow> is_upper c) \<and> \<not> isCommonWord token"

definition spec_extract_names :: "string \<Rightarrow> string list" where
  "spec_extract_names text = merge_adjacent spec_candidate (map strip_punct (split_ws text))"

record client_details =
  cd_name :: "string option"

text \<open>A source record, with the fields the extraction reads: Slack \<open>text\<close>, Zendesk and
  e-mail \<open>subject\<close>, Harvest \<open>client_details.name\<close>, e-mail \<open>body\<close>. \<open>None\<close> is an
  absent field; a field is used when it is truthy, that is present and not empty.\<close>

record source_item =
  item_text :: "string option"
  item_subject :: "string option"
  item_client_details :: "client_details option"
  item_body :: "string option"

definition truthy :: "string option \<Rightarrow> bool" where
  "truthy v \<longleftrightarrow> (case v of None \<Rightarrow> False | Some s \<Rightarrow> s \<noteq> [])"

text \<open>\<open>Set.prototype.add\<close> on a set kept in insertion order.\<close>

definition set_add :: "'a list \<Rightarrow> 'a \<Rightarrow> 'a list" where
  "set_add s x = (if x \<in> set s then s else s @ [x])"

definition names_of_field :: "string option \<Rightarrow> string list" where
  "names_of_field v = (case v of None \<Rightarrow> [] | Some s \<Rightarrow> if s = [] then [] else extractNamesFromText s)"

definition harvest_name :: "source_item \<Rightarrow> string list" where
  "harvest_name item =
     (case item_client_details item of
        None \<Rightarrow> []
      | Some cd \<Rightarrow> (case cd_name cd of None \<Rightarrow> [] | Some n \<Rightarrow> if n = [] then [] else [n]))"

text \<open>One iteration of the loop of \<open>extractClientNames\<close>: the names are added in the order
  text, subject, Harvest client name, subject again, body.\<close>

definition add_item_names :: "string list \<Rightarrow> source_item \<Rightarrow> string list" where
  "add_item_names clientNames item =
     foldl set_add clientNames
       (names_of_field (item_text item) @ names_of_field (item_subject item) @ harvest_name item
        @ names_of_field (item_subject item) @ names_of_field (item_body item))"

definition extractClientNames :: "source_item list \<Rightarrow> string list" where
  "extractClientNames data = foldl add_item_names [] data"

section \<open>The durable store\<close>

text \<open>
  The relational store is reached through a client library that answers every request
  with a pair of data and error. A request is modelled as a function from the store to
  its answer (\<open>Inl\<close> the error, \<open>Inr\<close> the data) and the store afterwards. Time stamps are
  milliseconds since the epoch; instants before 1970 are outside the model. \<open>fault_plan\<close> lists, request by request, the error that
  the transport or the server injects (\<open>None\<close>: the request is carried out); requests
  beyond the plan are carried out. \<open>served\<close> counts the requests made so far.
\<close>

datatype db_error = DbError string

type_synonym timestamp = nat

record client =
  cl_id :: string
  cl_name :: string
  cl_profile :: "(string \<times> string) list"
  cl_last_mentioned :: "timestamp option"
  cl_created_at :: "timestamp option"
  cl_updated_at :: "timestamp option"

record project =
  pj_id :: string
  pj_updated_at :: "timestamp option"

record summary_row =
  sm_id :: string
  sm_source :: string
  sm_summary :: string
  sm_created_at :: timestamp

record feedback_row =
  fb_id :: string
  fb_summary_id :: string
  fb_rating :: string
  fb_comment :: string
  fb_user_id :: "string option"
  fb_created_at :: timestamp

record pattern_row =
  fp_summary_id :: string
  fp_rating :: string
  fp_source :: string
  fp_pattern_type :: string
  fp_content :: string
  fp_user_edit :: "string option"
  fp_created_at :: timestamp

record edit_analysis =
  ea_summary_id :: string
  ea_original_length :: nat
  ea_edited_length :: nat
  ea_length_change_percent :: rat
  ea_tone_change :: string
  ea_style_change :: string
  ea_created_at :: timestamp

record rejection_analysis =
  ra_summary_id :: string
  ra_source :: string
  ra_content :: string
  ra_similar_rejections :: nat
  ra_created_at :: timestamp

record analytics_row =
  an_event_type :: string
  an_source :: string
  an_rating :: string
  an_has_comment :: bool
  an_timestamp :: timestamp

text \<open>The four analysis relations are optional: \<open>None\<close> is a relation that does not exist,
  which the server reports with the code \<open>42P01\<close>.\<close>

record store =
  clients_tbl :: "client list"
  summaries_tbl :: "summary_row list"
  feedback_tbl :: "feedback_row list"
  feedback_patterns_tbl :: "pattern_row list option"
  edit_analyses_tbl :: "edit_analysis list option"
  rejection_analyses_tbl :: "rejection_analysis list option"
  analytics_tbl :: "analytics_row list option"
  next_uuid :: nat
  fault_plan :: "db_error option list"
  served :: nat

definition next_fault :: "store \<Rightarrow> db_error option" where
  "next_fault db = (if served db < length (fault_plan db) then fault_plan db ! served db else None)"

definition serve :: "store \<Rightarrow> store" where
  "serve db = db\<lparr>served := served db + 1\<rparr>"

text \<open>A generated primary key: never empty, and different for different counters.\<close>

definition uuid_of :: "nat \<Rightarrow> string" where
  "uuid_of n = CHR ''u'' # replicate n (CHR ''+'')"

text \<open>\<open>.single()\<close>: the answer is the row when the query selects exactly one row, and the
  error \<open>PGRST116\<close> otherwise.\<close>

definition single :: "'a list \<Rightarrow> db_error + 'a" where
  "single rows = (case rows of [r] \<Rightarrow> Inr r | _ \<Rightarrow> Inl (DbError ''PGRST116''))"

text \<open>\<open>from('clients').select('*').in('name', names)\<close>\<close>

definition db_clients_by_names :: "string list \<Rightarrow> store \<Rightarrow> (db_error + client list) \<times> store" where
  "db_clients_by_names names db =
     (case next_fault db of
        Some e \<Rightarrow> (Inl e, serve db)
      | None \<Rightarrow> (Inr (filter (\<lambda>c. cl_name c \<in> set names) (clients_tbl db)), serve db))"

text \<open>\<open>from('clients').select('*').eq('id', clientId).single()\<close>\<close>

definition db_client_by_id :: "string \<Rightarrow> store \<Rightarrow> (db_error + client) \<times> store" where
  "db_client_by_id clientId db =
     (case next_fault db of
        Some e \<Rightarrow> (Inl e, serve db)
      | None \<Rightarrow> (single (filter (\<lambda>c. cl_id c = clientId) (clients_tbl db)), serve db))"



text \<open>\<open>from('clients').update({last_mentioned: now, updated_at: now})\<close> with
  \<open>.eq('id', id)\<close> or \<open>.in('id', ids)\<close>.\<close>

definition mention :: "timestamp \<Rightarrow> client \<Rightarrow> client" where
  "mention now c = c\<lparr>cl_last_mentioned := Some now, cl_updated_at := Some now\<rparr>"

definition db_mention_clients :: "timestamp \<Rightarrow> string list \<Rightarrow> store \<Rightarrow> (db_error + unit) \<times> store" where
  "db_mention_clients now ids db =
     (case next_fault db of
        Some e \<Rightarrow> (Inl e, serve db)
      | None \<Rightarrow>
          (Inr (),
           serve (db\<lparr>clients_tbl :=
                        map (\<lambda>c. if cl_id c \<in> set ids then mention now c else c) (clients_tbl db)\<rparr>)))"

section \<open>Context store: the short-term cache\<close>

definition CACHE_TTL :: int where
  "CACHE_TTL = 5 * 60 * 1000"

definition MAX_CACHE_SIZE :: nat where
  "MAX_CACHE_SIZE = 100"

text \<open>A JavaScript \<open>Map\<close> is an association list in insertion order with distinct keys:
  \<open>set\<close> replaces the value of a key in place or appends a new entry.\<close>

fun map_set :: "('k \<times> 'v) list \<Rightarrow> 'k \<Rightarrow> 'v \<Rightarrow> ('k \<times> 'v) list" where
  "map_set [] k v = [(k, v)]"
| "map_set (e # es) k v = (if fst e = k then (k, v) # es else e # map_set es k v)"

definition map_has :: "('k \<times> 'v) list \<Rightarrow> 'k \<Rightarrow> bool" where
  "map_has m k \<longleftrightarrow> k \<in> fst ` set m"

definition map_get :: "('k \<times> 'v) list \<Rightarrow> 'k \<Rightarrow> 'v option" where
  "map_get m k = map_of m k"

definition map_delete :: "('k \<times> 'v) list \<Rightarrow> 'k \<Rightarrow> ('k \<times> 'v) list" where
  "map_delete m k = filter (\<lambda>e. fst e \<noteq> k) m"

record shortTermCache =
  cache_clients :: "(string \<times> client) list"
  cache_lastUpdated :: timestamp
  cache_projects :: "(string \<times> project) list"
  cache_projectsLastUpdated :: timestamp

text \<open>The sort keys of \<open>pruneCache\<close>: \<open>new Date(x.last_mentioned || 0)\<close> and
  \<open>new Date(x.updated_at || 0)\<close>; an absent time stamp is read as the epoch.\<close>

definition mentioned_at :: "client \<Rightarrow> nat" where
  "mentioned_at c = (case cl_last_mentioned c of None \<Rightarrow> 0 | Some t \<Rightarrow> t)"

definition updated_at :: "project \<Rightarrow> nat" where
  "updated_at p = (case pj_updated_at p of None \<Rightarrow> 0 | Some t \<Rightarrow> t)"

text \<open>The body shared by the two halves of \<open>pruneCache\<close>: the entries are sorted by date,
  oldest first (\<open>Array.prototype.sort\<close> is stable), the first \<open>length - MAX_CACHE_SIZE\<close>
  of them are taken, and their keys are deleted from the map one by one.\<close>

definition prune_pool :: "('v \<Rightarrow> nat) \<Rightarrow> (string \<times> 'v) list \<Rightarrow> (string \<times> 'v) list" where
  "prune_pool date pool =
     (if length pool > MAX_CACHE_SIZE then
        (let entries = sort_key (\<lambda>e. date (snd e)) pool;
             entriesToRemove = take (length entries - MAX_CACHE_SIZE) entries
         in foldl (\<lambda>m e. map_delete m (fst e)) pool entriesToRemove)
      else pool)"

definition pruneCache :: "shortTermCache \<Rightarrow> shortTermCache" where
  "pruneCache cache =
     cache\<lparr>cache_clients := prune_pool mentioned_at (cache_clients cache),
           cache_projects := prune_pool updated_at (cache_projects cache)\<rparr>"

definition getCachedClients :: "string list \<Rightarrow> shortTermCache \<Rightarrow> client list" where
  "getCachedClients clientNames cache =
     filter (\<lambda>c. cl_name c \<in> set clientNames) (map snd (cache_clients cache))"

definition isCacheStale :: "timestamp \<Rightarrow> shortTermCache \<Rightarrow> bool" where
  "isCacheStale now cache \<longleftrightarrow> int now - int (cache_lastUpdated cache) \<ge> CACHE_TTL"

text \<open>The loop of \<open>updateClientCache\<close>: every client with a truthy \<open>id\<close> is set under
  that key.\<close>

definition set_clients :: "(string \<times> client) list \<Rightarrow> client list \<Rightarrow> (string \<times> client) list" where
  "set_clients pool clients =
     foldl (\<lambda>m c. if cl_id c \<noteq> [] then map_set m (cl_id c) c else m) pool clients"

definition updateClientCache :: "timestamp \<Rightarrow> client list \<Rightarrow> shortTermCache \<Rightarrow> shortTermCache" where
  "updateClientCache now clients cache =
     (if clients = [] then cache
      else
        (let cache' = cache\<lparr>cache_clients := set_clients (cache_clients cache) clients,
                             cache_lastUpdated := now\<rparr>
         in if length (cache_clients cache') > MAX_CACHE_SIZE then pruneCache cache' else cache'))"

text \<open>The cache half of \<open>updateClientLastMentioned\<close>: every resident client among
  \<open>clientIds\<close> is replaced by \<open>{...client, ...updates}\<close>.\<close>

definition mention_cached :: "timestamp \<Rightarrow> string list \<Rightarrow> shortTermCache \<Rightarrow> shortTermCache" where
  "mention_cached now clientIds cache =
     cache\<lparr>cache_clients :=
        foldl (\<lambda>m clientId. case map_get m clientId of
                                None \<Rightarrow> m
                              | Some c \<Rightarrow> map_set m clientId (mention now c))
          (cache_clients cache) clientIds\<rparr>"

definition updateClientLastMentioned ::
  "timestamp \<Rightarrow> string list \<Rightarrow> shortTermCache \<Rightarrow> store \<Rightarrow> shortTermCache \<times> store" where
  "updateClientLastMentioned now clientIds cache db =
     (if clientIds = [] then (cache, db)
      else if length clientIds = 1 then
        (case db_mention_clients now [hd clientIds] db of
           (Inl e, db') \<Rightarrow> (cache, db')
         | (Inr _, db') \<Rightarrow> (mention_cached now [hd clientIds] cache, db'))
      else
        (case db_mention_clients now clientIds db of
           (Inl e, db') \<Rightarrow> (cache, db')
         | (Inr _, db') \<Rightarrow> (mention_cached now clientIds cache, db')))"

section \<open>Context store: the exported operations\<close>

text \<open>Each operation is modelled at one instant \<open>now\<close>, the value of every \<open>Date.now()\<close>
  and \<open>new Date()\<close> it evaluates. The result is the returned value, the cache and the
  store. \<open>None\<close> is \<open>null\<close>; for an identifier the empty string stands for every falsy
  value.\<close>

text \<open>\<open>clientNames.filter(name => !cachedClients.some(client => client.name === name) ||
  Date.now() - shortTermCache.lastUpdated >= CACHE_TTL)\<close>\<close>

definition missing_names ::
  "timestamp \<Rightarrow> string list \<Rightarrow> client list \<Rightarrow> shortTermCache \<Rightarrow> string list" where
  "missing_names now clientNames cachedClients cache =
     filter (\<lambda>name. \<not> (\<exists>c \<in> set cachedClients. cl_name c = name)
                    \<or> int now - int (cache_lastUpdated cache) \<ge> CACHE_TTL)
       clientNames"

definition getRelevantClientContext ::
  "timestamp \<Rightarrow> source_item list option \<Rightarrow> shortTermCache \<Rightarrow> store
     \<Rightarrow> client list \<times> shortTermCache \<times> store" where
  "getRelevantClientContext now data cache db =
     (case data of
        None \<Rightarrow> ([], cache, db)
      | Some items \<Rightarrow>
          if items = [] then ([], cache, db)
          else
            (let clientNames = extractClientNames items in
             if clientNames = [] then ([], cache, db)
             else
               (let cachedClients = getCachedClients clientNames cache;
                    fresh = (int now - int (cache_lastUpdated cache) < CACHE_TTL)
                in if length cachedClients = length clientNames \<and> fresh
                   then (cachedClients, cache, db)
                   else
                     (let missingClientNames = missing_names now clientNames cachedClients cache;
                          fetched =
                            (if missingClientNames \<noteq> [] then
                               (case db_clients_by_names missingClientNames db of
                                  (Inl e, db1) \<Rightarrow> ([], cache, db1)
                                | (Inr clients, db1) \<Rightarrow>
                                    (let cache1 = updateClientCache now clients cache;
                                         r = updateClientLastMentioned now (map cl_id clients) cache1 db1
                                     in (clients, fst r, snd r)))
                             else ([], cache, db));
                          dbClients = fst fetched;
                          allClients =
                            foldl (\<lambda>acc cachedClient.
                                     if \<exists>c \<in> set acc. cl_id c = cl_id cachedClient then acc
                                     else acc @ [cachedClient])
                              dbClients cachedClients
                      in (allClients, fst (snd fetched), snd (snd fetched))))))"

definition getClientById ::
  "timestamp \<Rightarrow> string \<Rightarrow> shortTermCache \<Rightarrow> store \<Rightarrow> client option \<times> shortTermCache \<times> store" where
  "getClientById now clientId cache db =
     (if clientId = [] then (None, cache, db)
      else if map_has (cache_clients cache) clientId
              \<and> int now - int (cache_lastUpdated cache) < CACHE_TTL
      then (map_get (cache_clients cache) clientId, cache, db)
      else
        (case db_client_by_id clientId db of
           (Inl e, db') \<Rightarrow> (None, cache, db')
         | (Inr c, db') \<Rightarrow>
             (Some c, cache\<lparr>cache_clients := map_set (cache_clients cache) clientId c\<rparr>, db')))"



section \<open>Feedback handler: requests to the store\<close>

text \<open>\<open>from('feedback').insert([row]).select().single()\<close>: \<open>summary_id\<close> references the
  summaries, so a row for an unknown summary is refused with the foreign-key error
  \<open>23503\<close>; otherwise the row is stored under a generated key and returned.\<close>

definition db_insert_feedback :: "feedback_row \<Rightarrow> store \<Rightarrow> (db_error + feedback_row) \<times> store" where
  "db_insert_feedback row db =
     (case next_fault db of
        Some e \<Rightarrow> (Inl e, serve db)
      | None \<Rightarrow>
          if \<not> (\<exists>s \<in> set (summaries_tbl db). sm_id s = fb_summary_id row)
          then (Inl (DbError ''23503''), serve db)
          else (let stored = row\<lparr>fb_id := uuid_of (next_uuid db)\<rparr>
                in (Inr stored,
                    serve (db\<lparr>feedback_tbl := feedback_tbl db @ [stored],
                              next_uuid := next_uuid db + 1\<rparr>))))"

text \<open>\<open>from('summaries').select(...).eq('id', summaryId).single()\<close>\<close>

definition db_summary_by_id :: "string \<Rightarrow> store \<Rightarrow> (db_error + summary_row) \<times> store" where
  "db_summary_by_id summaryId db =
     (case next_fault db of
        Some e \<Rightarrow> (Inl e, serve db)
      | None \<Rightarrow> (single (filter (\<lambda>s. sm_id s = summaryId) (summaries_tbl db)), serve db))"

text \<open>Newest first: \<open>.order('created_at', { ascending: false }).limit(n)\<close>. Rows with equal
  time stamps keep their stored order.\<close>

definition newest_first :: "('a \<Rightarrow> timestamp) \<Rightarrow> nat \<Rightarrow> 'a list \<Rightarrow> 'a list" where
  "newest_first created n rows = take n (sort_key (\<lambda>r. - int (created r)) rows)"

text \<open>\<open>from('summaries').select('*').eq('source', source).order(...).limit(10)\<close>\<close>

definition db_recent_summaries :: "string \<Rightarrow> store \<Rightarrow> (db_error + summary_row list) \<times> store" where
  "db_recent_summaries source db =
     (case next_fault db of
        Some e \<Rightarrow> (Inl e, serve db)
      | None \<Rightarrow>
          (Inr (newest_first sm_created_at 10 (filter (\<lambda>s. sm_source s = source) (summaries_tbl db))),
           serve db))"

text \<open>\<open>from('feedback').select('*').eq('summary_id', id).eq('rating', 'rejected')\<close>\<close>

definition db_rejections_of :: "string \<Rightarrow> store \<Rightarrow> (db_error + feedback_row list) \<times> store" where
  "db_rejections_of summaryId db =
     (case next_fault db of
        Some e \<Rightarrow> (Inl e, serve db)
      | None \<Rightarrow>
          (Inr (filter (\<lambda>f. fb_summary_id f = summaryId \<and> fb_rating f = ''rejected'') (feedback_tbl db)),
           serve db))"

text \<open>\<open>from('feedback').select('*').gte('created_at', since)\<close>\<close>

definition db_feedback_since :: "int \<Rightarrow> store \<Rightarrow> (db_error + feedback_row list) \<times> store" where
  "db_feedback_since since db =
     (case next_fault db of
        Some e \<Rightarrow> (Inl e, serve db)
      | None \<Rightarrow> (Inr (filter (\<lambda>f. since \<le> int (fb_created_at f)) (feedback_tbl db)), serve db))"

text \<open>Inserts into the optional relations.\<close>

definition db_insert_pattern :: "pattern_row \<Rightarrow> store \<Rightarrow> (db_error + unit) \<times> store" where
  "db_insert_pattern row db =
     (case next_fault db of
        Some e \<Rightarrow> (Inl e, serve db)
      | None \<Rightarrow>
          (case feedback_patterns_tbl db of
             None \<Rightarrow> (Inl (DbError ''42P01''), serve db)
           | Some rows \<Rightarrow> (Inr (), serve (db\<lparr>feedback_patterns_tbl := Some (rows @ [row])\<rparr>))))"

definition db_insert_edit_analysis :: "edit_analysis \<Rightarrow> store \<Rightarrow> (db_error + unit) \<times> store" where
  "db_insert_edit_analysis row db =
     (case next_fault db of
        Some e \<Rightarrow> (Inl e, serve db)
      | None \<Rightarrow>
          (case edit_analyses_tbl db of
             None \<Rightarrow> (Inl (DbError ''42P01''), serve db)
           | Some rows \<Rightarrow> (Inr (), serve (db\<lparr>edit_analyses_tbl := Some (rows @ [row])\<rparr>))))"

definition db_insert_rejection_analysis :: "rejection_analysis \<Rightarrow> store \<Rightarrow> (db_error + unit) \<times> store" where
  "db_insert_rejection_analysis row db =
     (case next_fault db of
        Some e \<Rightarrow> (Inl e, serve db)
      | None \<Rightarrow>
          (case rejection_analyses_tbl db of
             None \<Rightarrow> (Inl (DbError ''42P01''), serve db)
           | Some rows \<Rightarrow> (Inr (), serve (db\<lparr>rejection_analyses_tbl := Some (rows @ [row])\<rparr>))))"

definition db_insert_analytics :: "analytics_row \<Rightarrow> store \<Rightarrow> (db_error + unit) \<times> store" where
  "db_insert_analytics row db =
     (case next_fault db of
        Some e \<Rightarrow> (Inl e, serve db)
      | None \<Rightarrow>
          (case analytics_tbl db of
             None \<Rightarrow> (Inl (DbError ''42P01''), serve db)
           | Some rows \<Rightarrow> (Inr (), serve (db\<lparr>analytics_tbl := Some (rows @ [row])\<rparr>))))"

text \<open>\<open>from('edit_analyses').select('*').order('created_at', { ascending: false }).limit(20)\<close>\<close>

definition db_recent_edit_analyses :: "store \<Rightarrow> (db_error + edit_analysis list) \<times> store" where
  "db_recent_edit_analyses db =
     (case next_fault db of
        Some e \<Rightarrow> (Inl e, serve db)
      | None \<Rightarrow>
          (case edit_analyses_tbl db of
             None \<Rightarrow> (Inl (DbError ''42P01''), serve db)
           | Some rows \<Rightarrow> (Inr (newest_first ea_created_at 20 rows), serve db)))"

section \<open>Feedback handler: state and operations\<close>

definition RATING_TYPES :: "string list" where
  "RATING_TYPES = [''approved'', ''edited'', ''rejected'']"

record preferences =
  pref_tone :: string
  pref_length :: string
  pref_style :: string

text \<open>The object returned by \<open>getFeedbackStats\<close>. The rates are the exact quotients that
  the code computes in floating point; \<open>editRate\<close> and \<open>rejectionRate\<close> are absent from
  the object returned on an error or for an empty period. Days are numbered from the
  epoch and stand for the keys \<open>YYYY-MM-DD\<close>.\<close>

record feedback_stats =
  st_total :: nat
  st_approved :: nat
  st_edited :: nat
  st_rejected :: nat
  st_approvalRate :: rat
  st_editRate :: "rat option"
  st_rejectionRate :: "rat option"
  st_sources :: "(string \<times> nat) list"
  st_timeDistribution :: "(nat \<times> nat) list"

record feedback_patterns =
  pt_approvalRate :: rat
  pt_editRate :: rat
  pt_rejectionRate :: rat
  pt_patterns :: preferences
  pt_sources :: "(string \<times> nat) list"
  pt_timeDistribution :: "(nat \<times> nat) list"

record feedbackPatternsCache =
  fpc_patterns :: "feedback_patterns option"
  fpc_lastUpdated :: timestamp

definition fpc_ttl :: int where
  "fpc_ttl = 5 * 60 * 1000"

text \<open>The text metrics of the handler are pure functions of their arguments; they are
  parameters of the model: \<open>analyzeToneChange\<close> and \<open>analyzeStyleChange\<close> compare the
  original and the edited text (the latter in floating point), and \<open>derivePreferences\<close>
  is the tally of \<open>getFeedbackPatterns\<close> over the tone and style labels of the edit
  analyses, which yields the preferred tone, length and style.\<close>

record text_metrics =
  analyzeToneChange :: "string \<Rightarrow> string \<Rightarrow> string"
  analyzeStyleChange :: "string \<Rightarrow> string \<Rightarrow> string"
  derivePreferences :: "edit_analysis list \<Rightarrow> preferences"

text \<open>The result of an asynchronous operation: \<open>Inr\<close> the value the promise resolves to,
  \<open>Inl\<close> the error it rejects with.\<close>

datatype js_error = Error string

definition percent :: "int \<Rightarrow> nat \<Rightarrow> rat" where
  "percent a b = (if b > 0 then (of_int a / of_nat b) * 100 else 0)"

definition analyzeEdits :: "text_metrics \<Rightarrow> timestamp \<Rightarrow> summary_row \<Rightarrow> string \<Rightarrow> store \<Rightarrow> store" where
  "analyzeEdits tm now summary editedText db =
     (if sm_id summary = [] then db
      else if editedText = [] then db
      else
        (let originalText = sm_summary summary;
             originalLength = length originalText;
             editedLength = length editedText;
             lengthDifference = int editedLength - int originalLength;
             analysisData =
               \<lparr>ea_summary_id = sm_id summary,
                ea_original_length = originalLength,
                ea_edited_length = editedLength,
                ea_length_change_percent = percent lengthDifference originalLength,
                ea_tone_change = analyzeToneChange tm originalText editedText,
                ea_style_change = analyzeStyleChange tm originalText editedText,
                ea_created_at = now\<rparr>
         in snd (db_insert_edit_analysis analysisData db)))"

text \<open>The loop of \<open>analyzeRejection\<close> over the recent summaries of the source: it counts
  those, other than the current one, that have a rejection. A failed lookup leaves the
  data \<open>null\<close> and counts nothing.\<close>

definition count_rejection :: "summary_row \<Rightarrow> nat \<times> store \<Rightarrow> summary_row \<Rightarrow> nat \<times> store" where
  "count_rejection summary acc recentSummary =
     (if sm_id recentSummary = sm_id summary then acc
      else
        (case db_rejections_of (sm_id recentSummary) (snd acc) of
           (Inl e, db') \<Rightarrow> (fst acc, db')
         | (Inr feedback, db') \<Rightarrow> (if feedback \<noteq> [] then fst acc + 1 else fst acc, db')))"

definition analyzeRejection :: "timestamp \<Rightarrow> summary_row \<Rightarrow> store \<Rightarrow> store" where
  "analyzeRejection now summary db =
     (if sm_id summary = [] then db
      else
        (case db_recent_summaries (sm_source summary) db of
           (Inl e, db1) \<Rightarrow> db1
         | (Inr recentRejections, db1) \<Rightarrow>
             (let counted = foldl (count_rejection summary) (0, db1) recentRejections;
                  analysisData =
                    \<lparr>ra_summary_id = sm_id summary, ra_source = sm_source summary,
                     ra_content = sm_summary summary, ra_similar_rejections = fst counted,
                     ra_created_at = now\<rparr>
              in snd (db_insert_rejection_analysis analysisData (snd counted)))))"

definition updateFeedbackPatterns ::
  "text_metrics \<Rightarrow> timestamp \<Rightarrow> string \<Rightarrow> string \<Rightarrow> string
     \<Rightarrow> feedbackPatternsCache \<Rightarrow> store \<Rightarrow> feedbackPatternsCache \<times> store" where
  "updateFeedbackPatterns tm now summaryId rating comment cache db =
     (if summaryId = [] then (cache, db)
      else
        (case db_summary_by_id summaryId db of
           (Inl summaryError, db1) \<Rightarrow> (cache, db1)
         | (Inr summary, db1) \<Rightarrow>
             (let db2 = snd (db_insert_pattern
                          \<lparr>fp_summary_id = summaryId, fp_rating = rating,
                           fp_source = sm_source summary,
                           fp_pattern_type =
                             (if rating = ''edited'' then ''edit''
                              else if rating = ''rejected'' then ''rejection'' else ''approval''),
                           fp_content = sm_summary summary,
                           fp_user_edit = (if comment = [] then None else Some comment),
                           fp_created_at = now\<rparr> db1);
                  db3 = (if rating = ''edited'' \<and> comment \<noteq> []
                         then analyzeEdits tm now summary comment db2 else db2);
                  db4 = (if rating = ''rejected'' then analyzeRejection now summary db3 else db3)
              in (cache\<lparr>fpc_patterns := None\<rparr>, db4))))"

definition trackFeedbackAnalytics :: "timestamp \<Rightarrow> string \<Rightarrow> string \<Rightarrow> string \<Rightarrow> store \<Rightarrow> store" where
  "trackFeedbackAnalytics now summaryId rating comment db =
     (if summaryId = [] then db
      else
        (case db_summary_by_id summaryId db of
           (Inl e, db1) \<Rightarrow> db1
         | (Inr summary, db1) \<Rightarrow>
             snd (db_insert_analytics
                    \<lparr>an_event_type = ''feedback'', an_source = sm_source summary,
                     an_rating = rating, an_has_comment = (comment \<noteq> []),
                     an_timestamp = now\<rparr> db1)))"

text \<open>\<open>storeFeedback(summaryId, rating, comment = '', userId = null)\<close>. \<open>None\<close> is a
  \<open>summaryId\<close> or \<open>userId\<close> that is \<open>null\<close> or \<open>undefined\<close>; the empty \<open>comment\<close> stands for
  every falsy comment. The body is enclosed in \<open>try\<close> and every \<open>catch\<close> returns \<open>null\<close>,
  so the promise always resolves: to \<open>None\<close> for \<open>null\<close>, or to the stored row.\<close>

definition storeFeedback ::
  "text_metrics \<Rightarrow> timestamp \<Rightarrow> string option \<Rightarrow> string \<Rightarrow> string \<Rightarrow> string option
     \<Rightarrow> feedbackPatternsCache \<Rightarrow> store
     \<Rightarrow> (js_error + feedback_row option) \<times> feedbackPatternsCache \<times> store" where
  "storeFeedback tm now summaryId rating comment userId cache db =
     (case summaryId of
        None \<Rightarrow> (Inr None, cache, db)
      | Some sid \<Rightarrow>
          if sid = [] then (Inr None, cache, db)
          else
            (let rating = (if rating \<in> set RATING_TYPES then rating else ''approved'');
                 feedbackData =
                   \<lparr>fb_id = [], fb_summary_id = sid, fb_rating = rating, fb_comment = comment,
                    fb_user_id = (if truthy userId then userId else None),
                    fb_created_at = now\<rparr>
             in case db_insert_feedback feedbackData db of
                  (Inl error, db1) \<Rightarrow> (Inr None, cache, db1)
                | (Inr feedback, db1) \<Rightarrow>
                    (let u = updateFeedbackPatterns tm now sid rating comment cache db1;
                         cache' = (fst u)\<lparr>fpc_patterns := None\<rparr>;
                         db3 = trackFeedbackAnalytics now sid rating comment (snd u)
                     in (Inr (Some feedback), cache', db3))))"

definition zero_stats :: feedback_stats where
  "zero_stats =
     \<lparr>st_total = 0, st_approved = 0, st_edited = 0, st_rejected = 0, st_approvalRate = 0,
      st_editRate = None, st_rejectionRate = None, st_sources = [], st_timeDistribution = []\<rparr>"

text \<open>\<open>counts[key] = (counts[key] || 0) + 1\<close>\<close>

definition bump :: "('k \<times> nat) list \<Rightarrow> 'k \<Rightarrow> ('k \<times> nat) list" where
  "bump counts key = map_set counts key ((case map_get counts key of None \<Rightarrow> 0 | Some n \<Rightarrow> n) + 1)"

definition MS_PER_DAY :: nat where
  "MS_PER_DAY = 24 * 60 * 60 * 1000"

text \<open>One iteration of the loop of \<open>getFeedbackStats\<close> over the feedback of the period:
  the source of the summary is looked up and counted, then the day is counted.\<close>

definition tally_feedback ::
  "(string \<times> nat) list \<times> (nat \<times> nat) list \<times> store \<Rightarrow> feedback_row
     \<Rightarrow> (string \<times> nat) list \<times> (nat \<times> nat) list \<times> store" where
  "tally_feedback acc f =
     (let sources = fst acc; timeDistribution = fst (snd acc); db = snd (snd acc);
          looked =
            (if fb_summary_id f \<noteq> [] then
               (case db_summary_by_id (fb_summary_id f) db of
                  (Inl e, db') \<Rightarrow> (sources, db')
                | (Inr summary, db') \<Rightarrow>
                    (if sm_source summary \<noteq> [] then bump sources (sm_source summary) else sources,
                     db'))
             else (sources, db))
      in (fst looked, bump timeDistribution (fb_created_at f div MS_PER_DAY), snd looked))"

text \<open>\<open>getFeedbackStats(days = 30)\<close>: the period starts \<open>days\<close> days of 24 hours before
  \<open>now\<close>. Every path returns a statistics object; none raises.\<close>

definition getFeedbackStats :: "timestamp \<Rightarrow> nat \<Rightarrow> store \<Rightarrow> feedback_stats \<times> store" where
  "getFeedbackStats now days db =
     (case db_feedback_since (int now - int (days * MS_PER_DAY)) db of
        (Inl error, db1) \<Rightarrow> (zero_stats, db1)
      | (Inr feedback, db1) \<Rightarrow>
          if feedback = [] then (zero_stats, db1)
          else
            (let approved = length (filter (\<lambda>f. fb_rating f = ''approved'') feedback);
                 edited = length (filter (\<lambda>f. fb_rating f = ''edited'') feedback);
                 rejected = length (filter (\<lambda>f. fb_rating f = ''rejected'') feedback);
                 total = length feedback;
                 tallied = foldl tally_feedback ([], [], db1) feedback
             in (\<lparr>st_total = total, st_approved = approved, st_edited = edited,
                  st_rejected = rejected,
                  st_approvalRate = percent (int approved) total,
                  st_editRate = Some (percent (int edited) total),
                  st_rejectionRate = Some (percent (int rejected) total),
                  st_sources = fst tallied,
                  st_timeDistribution = fst (snd tallied)\<rparr>,
                 snd (snd tallied))))"

definition default_preferences :: preferences where
  "default_preferences =
     \<lparr>pref_tone = ''neutral'', pref_length = ''medium'', pref_style = ''professional''\<rparr>"

text \<open>\<open>stats.editRate || fallback\<close>: the fallback is taken when the rate is absent or 0.\<close>

definition rate_or :: "rat option \<Rightarrow> rat \<Rightarrow> rat" where
  "rate_or r fallback = (case r of None \<Rightarrow> fallback | Some x \<Rightarrow> if x = 0 then fallback else x)"

text \<open>The part of \<open>getFeedbackPatterns\<close> behind the cache check: the statistics of the last
  30 days, the 20 newest edit analyses, and the pattern object built from them.\<close>

definition computePatterns :: "text_metrics \<Rightarrow> timestamp \<Rightarrow> store \<Rightarrow> feedback_patterns \<times> store" where
  "computePatterns tm now db =
     (let s = getFeedbackStats now 30 db;
          stats = fst s;
          e = db_recent_edit_analyses (snd s);
          prefs =
            (case fst e of
               Inl error \<Rightarrow> default_preferences
             | Inr editAnalyses \<Rightarrow>
                 if editAnalyses \<noteq> [] then derivePreferences tm editAnalyses
                 else default_preferences);
          patterns =
            \<lparr>pt_approvalRate = st_approvalRate stats,
             pt_editRate = rate_or (st_editRate stats) (percent (int (st_edited stats)) (st_total stats)),
             pt_rejectionRate =
               rate_or (st_rejectionRate stats) (percent (int (st_rejected stats)) (st_total stats)),
             pt_patterns = prefs,
             pt_sources = st_sources stats,
             pt_timeDistribution = st_timeDistribution stats\<rparr>
      in (patterns, snd e))"

definition getFeedbackPatterns ::
  "text_metrics \<Rightarrow> timestamp \<Rightarrow> feedbackPatternsCache \<Rightarrow> store
     \<Rightarrow> feedback_patterns \<times> feedbackPatternsCache \<times> store" where
  "getFeedbackPatterns tm now cache db =
     (let recomputed =
            (let c = computePatterns tm now db
             in (fst c, \<lparr>fpc_patterns = Some (fst c), fpc_lastUpdated = now\<rparr>, snd c))
      in case fpc_patterns cache of
           None \<Rightarrow> recomputed
         | Some patterns \<Rightarrow>
             if int now - int (fpc_lastUpdated cache) < fpc_ttl then (patterns, cache, db)
             else recomputed)"

section \<open>Request orchestrator: \<open>processWithAI\<close>\<close>

datatype json =
  JNull | JBool bool | JNumber string | JString string | JArray "json list"
  | JObject "(string \<times> json) list"

text \<open>The request sent to the model: the system message carries the learned preferences,
  the user message is the prompt template with the data filled in.\<close>

record ai_request =
  req_preferences :: preferences
  req_prompt :: string

text \<open>What the retry loop does to the outside: the number of requests posted and the
  waits in milliseconds, in order.\<close>

record call_trace =
  attempts :: nat
  sleeps :: "nat list"

definition maxRetries :: nat where
  "maxRetries = 3"

text \<open>The \<open>while (retries < maxRetries)\<close> loop. \<open>post n\<close> is the outcome of the request
  posted after \<open>n\<close> earlier ones: \<open>Inl message\<close> when the HTTP client rejects (transport
  error, time-out, non-success status), \<open>Inr response\<close> otherwise.\<close>

function request_loop ::
  "(nat \<Rightarrow> string + 'a) \<Rightarrow> nat \<Rightarrow> call_trace \<Rightarrow> (js_error + 'a) \<times> call_trace" where
  "request_loop post retries tr =
     (if retries < maxRetries then
        (case post (attempts tr) of
           Inr response \<Rightarrow> (Inr response, tr\<lparr>attempts := attempts tr + 1\<rparr>)
         | Inl message \<Rightarrow>
             (if retries + 1 \<ge> maxRetries
              then (Inl (Error (''Failed to get AI response after 3 attempts: '' @ message)),
                    tr\<lparr>attempts := attempts tr + 1\<rparr>)
              else request_loop post (retries + 1)
                     (tr\<lparr>attempts := attempts tr + 1,
                         sleeps := sleeps tr @ [1000 * 2 ^ (retries + 1)]\<rparr>)))
      else (Inl (Error ''Cannot read properties of undefined''), tr))"
  by pat_completeness auto
termination
  by (relation "measure (\<lambda>(post, retries, tr). maxRetries - retries)") auto

declare request_loop.simps [simp del]

subsection \<open>The fallback extraction\<close>

text \<open>The lower-case form of a letter \<open>A\<close> to \<open>Z\<close>; every other code unit is its own.\<close>

definition lower :: "char \<Rightarrow> char" where
  "lower c = (case map_of (zip upper_letters lower_letters) c of None \<Rightarrow> c | Some l \<Rightarrow> l)"

text \<open>A label of a regular expression with the flag \<open>i\<close> matches at the start of a text.\<close>

fun starts_with_ci :: "string \<Rightarrow> string \<Rightarrow> bool" where
  "starts_with_ci [] text = True"
| "starts_with_ci (l # ls) [] = False"
| "starts_with_ci (l # ls) (c # cs) = (lower c = lower l \<and> starts_with_ci ls cs)"

text \<open>The text behind the first occurrence of the label, if there is one.\<close>

fun after_label :: "string \<Rightarrow> string \<Rightarrow> string option" where
  "after_label label [] = (if label = [] then Some [] else None)"
| "after_label label (c # cs) =
     (if starts_with_ci label (c # cs) then Some (drop (length label) (c # cs))
      else after_label label cs)"

text \<open>\<open>(.*?)(?=label|$)\<close> with the flag \<open>s\<close>: the shortest prefix that is followed by the
  label or by the end of the text.\<close>

fun until_label :: "string \<Rightarrow> string \<Rightarrow> string" where
  "until_label label [] = []"
| "until_label label (c # cs) =
     (if starts_with_ci label (c # cs) then [] else c # until_label label cs)"

definition trim :: "string \<Rightarrow> string" where
  "trim s = rev (dropWhile is_space (rev (dropWhile is_space s)))"

text \<open>\<open>s.split('\n')\<close>\<close>

fun split_lines :: "string \<Rightarrow> string list" where
  "split_lines [] = [[]]"
| "split_lines (c # cs) =
     (if c = CHR 0x0A then [] # split_lines cs
      else (case split_lines cs of [] \<Rightarrow> [[c]] | l # ls \<Rightarrow> (c # l) # ls))"

text \<open>\<open>item.trim().replace(/^-\s*/, '')\<close>\<close>

definition strip_dash :: "string \<Rightarrow> string" where
  "strip_dash item =
     (case trim item of
        [] \<Rightarrow> []
      | c # rest \<Rightarrow> if c = CHR ''-'' then dropWhile is_space rest else c # rest)"

definition list_items :: "string \<Rightarrow> string list" where
  "list_items section = map strip_dash (filter (\<lambda>item. trim item \<noteq> []) (split_lines section))"

definition fallback_summary :: "string \<Rightarrow> string" where
  "fallback_summary aiResponse =
     (case after_label ''summary:'' aiResponse of
        None \<Rightarrow> aiResponse
      | Some rest \<Rightarrow>
          (let s = trim (until_label ''action_items:'' rest)
           in if s = [] then aiResponse else s))"

definition fallback_action_items :: "string \<Rightarrow> string list" where
  "fallback_action_items aiResponse =
     (case after_label ''action_items:'' aiResponse of
        None \<Rightarrow> []
      | Some rest \<Rightarrow> list_items (until_label ''suggested_messages:'' rest))"

definition fallback_suggested_messages :: "string \<Rightarrow> string list" where
  "fallback_suggested_messages aiResponse =
     (case after_label ''suggested_messages:'' aiResponse of
        None \<Rightarrow> []
      | Some rest \<Rightarrow> list_items rest)"

definition extract_structured :: "string \<Rightarrow> json" where
  "extract_structured aiResponse =
     JObject
       [(''summary'', JString (fallback_summary aiResponse)),
        (''action_items'', JArray (map JString (fallback_action_items aiResponse))),
        (''suggested_messages'', JArray (map JString (fallback_suggested_messages aiResponse)))]"

text \<open>The part of \<open>processWithAI\<close> behind the loop. \<open>parse\<close> is \<open>JSON.parse\<close>, with \<open>None\<close>
  for a syntax error; it is a parameter. The content of the first choice is a string or
  \<open>null\<close>; \<open>JSON.parse(null)\<close> parses the text \<open>null\<close>. A response without choices makes the
  property access raise.\<close>

definition parse_response :: "(string \<Rightarrow> json option) \<Rightarrow> string option list \<Rightarrow> js_error + json" where
  "parse_response parse choices =
     (case choices of
        [] \<Rightarrow> Inl (Error ''Cannot read properties of undefined'')
      | aiResponse # _ \<Rightarrow>
          (case aiResponse of
             None \<Rightarrow>
               (case parse ''null'' of
                  Some v \<Rightarrow> Inr v
                | None \<Rightarrow> Inl (Error ''Cannot read properties of null''))
           | Some text \<Rightarrow>
               (case parse text of
                  Some v \<Rightarrow> Inr v
                | None \<Rightarrow> Inr (extract_structured text))))"

text \<open>\<open>catch (error) { throw new Error(`AI processing failed: ${error.message}`) }\<close>\<close>

definition rethrow :: "js_error + 'a \<Rightarrow> js_error + 'a" where
  "rethrow r =
     (case r of
        Inl (Error message) \<Rightarrow> Inl (Error (''AI processing failed: '' @ message))
      | Inr v \<Rightarrow> Inr v)"

text \<open>\<open>processWithAI\<close>: \<open>prompt\<close> is the template with the data filled in. The result is
  the value or the error of the promise, the trace of the loop, and the state of the
  feedback handler, whose patterns are read first.\<close>

definition processWithAI ::
  "text_metrics \<Rightarrow> timestamp \<Rightarrow> (string \<Rightarrow> json option)
     \<Rightarrow> (ai_request \<Rightarrow> nat \<Rightarrow> string + string option list) \<Rightarrow> string
     \<Rightarrow> feedbackPatternsCache \<Rightarrow> store
     \<Rightarrow> (js_error + json) \<times> call_trace \<times> feedbackPatternsCache \<times> store" where
  "processWithAI tm now parse post prompt cache db =
     (let g = getFeedbackPatterns tm now cache db;
          request = \<lparr>req_preferences = pt_patterns (fst g), req_prompt = prompt\<rparr>;
          l = request_loop (post request) 0 \<lparr>attempts = 0, sleeps = []\<rparr>
      in (rethrow (case fst l of Inl error \<Rightarrow> Inl error | Inr choices \<Rightarrow> parse_response parse choices),
          snd l, snd g))"

text \<open>The request that \<open>processWithAI\<close> posts.\<close>

definition request_of ::
  "text_metrics \<Rightarrow> timestamp \<Rightarrow> string \<Rightarrow> feedbackPatternsCache \<Rightarrow> store \<Rightarrow> ai_request" where
  "request_of tm now prompt cache db =
     \<lparr>req_preferences = pt_patterns (fst (getFeedbackPatterns tm now cache db)),
      req_prompt = prompt\<rparr>"

section \<open>Example states\<close>

text \<open>Concrete clients, caches, stores and endpoints, on which the theorems below are
  evaluated.\<close>

text \<open>A full pool of 100 clients; client 3 has never been mentioned.\<close>

definition sample_client :: "nat \<Rightarrow> client" where
  "sample_client i =
     \<lparr>cl_id = uuid_of i, cl_name = CHR ''C'' # uuid_of i, cl_profile = [],
      cl_last_mentioned = (if i = 3 then None else Some (1700000000000 + i)),
      cl_created_at = Some 1700000000000, cl_updated_at = None\<rparr>"

definition full_cache :: shortTermCache where
  "full_cache =
     \<lparr>cache_clients = map (\<lambda>i. (uuid_of i, sample_client i)) [0..<100],
      cache_lastUpdated = 1700000000000, cache_projects = [],
      cache_projectsLastUpdated = 1700000000000\<rparr>"

definition quiet_item :: source_item where
  "quiet_item =
     \<lparr>item_text = Some ''please send the update today'', item_subject = None,
      item_client_details = None, item_body = None\<rparr>"

definition sample_store :: store where
  "sample_store =
     \<lparr>clients_tbl = [sample_client 0, sample_client 1, sample_client 2],
      summaries_tbl = [], feedback_tbl = [], feedback_patterns_tbl = Some [],
      edit_analyses_tbl = Some [], rejection_analyses_tbl = None, analytics_tbl = None,
      next_uuid = 3, fault_plan = [], served = 0\<rparr>"

definition stale_cache :: shortTermCache where
  "stale_cache =
     \<lparr>cache_clients = [(uuid_of 0, sample_client 0), (uuid_of 1, sample_client 1)],
      cache_lastUpdated = 1600000000000, cache_projects = [],
      cache_projectsLastUpdated = 1600000000000\<rparr>"


definition acme_item :: source_item where
  "acme_item =
     \<lparr>item_text = Some ''Acme Corp needs an update'', item_subject = None,
      item_client_details = None, item_body = None\<rparr>"

definition sample_metrics :: text_metrics where
  "sample_metrics =
     \<lparr>analyzeToneChange = (\<lambda>originalText editedText. ''neutral to formal''),
      analyzeStyleChange = (\<lambda>originalText editedText. ''more concise''),
      derivePreferences =
        (\<lambda>editAnalyses. \<lparr>pref_tone = ''formal'', pref_length = ''concise'',
                            pref_style = ''professional''\<rparr>)\<rparr>"

definition initial_patterns_cache :: feedbackPatternsCache where
  "initial_patterns_cache = \<lparr>fpc_patterns = None, fpc_lastUpdated = 0\<rparr>"

definition feedback_store :: store where
  "feedback_store =
     sample_store\<lparr>summaries_tbl :=
       [\<lparr>sm_id = ''s1'', sm_source = ''slack'', sm_summary = ''Weekly digest of the channel'',
         sm_created_at = 1699990000000\<rparr>]\<rparr>"

definition quiet_patterns :: feedback_patterns where
  "quiet_patterns =
     \<lparr>pt_approvalRate = 0, pt_editRate = 0, pt_rejectionRate = 0,
      pt_patterns = default_preferences, pt_sources = [], pt_timeDistribution = []\<rparr>"

definition warm_cache :: feedbackPatternsCache where
  "warm_cache = \<lparr>fpc_patterns = Some quiet_patterns, fpc_lastUpdated = 1700000000000\<rparr>"

definition edit_feedback ::
  "(js_error + feedback_row option) \<times> feedbackPatternsCache \<times> store" where
  "edit_feedback =
     storeFeedback sample_metrics 1700000090000 (Some ''s1'') ''edited'' ''Short digest'' None
       warm_cache (feedback_store\<lparr>served := 2\<rparr>)"

definition learned_patterns :: feedback_patterns where
  "learned_patterns =
     \<lparr>pt_approvalRate = 0, pt_editRate = 100, pt_rejectionRate = 0,
      pt_patterns = \<lparr>pref_tone = ''formal'', pref_length = ''concise'',
                      pref_style = ''professional''\<rparr>,
      pt_sources = [(''slack'', 1)], pt_timeDistribution = [(19675, 1)]\<rparr>"

text \<open>\<open>JSON.parse\<close> on the texts of the examples.\<close>

definition parse_sample :: "string \<Rightarrow> json option" where
  "parse_sample text =
     (if text = ''null'' then Some JNull
      else if text = ''{}'' then Some (JObject [])
      else None)"

definition endpoint_down :: "ai_request \<Rightarrow> nat \<Rightarrow> string + string option list" where
  "endpoint_down request n = Inl ''timeout of 30000ms exceeded''"

definition endpoint_recovering :: "ai_request \<Rightarrow> nat \<Rightarrow> string + string option list" where
  "endpoint_recovering request n =
     (if n < 2 then Inl ''Request failed with status code 502'' else Inr [Some ''{}''])"

definition endpoint_prose :: "ai_request \<Rightarrow> nat \<Rightarrow> string + string option list" where
  "endpoint_prose request n = Inr [Some ''All quiet this week.'']"

definition labelled_text :: string where
  "labelled_text = ''Summary: Busy. Action_Items: - Call Bob suggested_messages: - Hi''"

definition endpoint_labelled :: "ai_request \<Rightarrow> nat \<Rightarrow> string + string option list" where
  "endpoint_labelled request n = Inr [Some labelled_text]"

section \<open>Name extraction\<close>

lemma extend_name_eq:
  "extend_name words j name =
     (foldl (\<lambda>name nextWord. name @ '' '' @ nextWord) name
        (takeWhile is_name_word (map strip_punct (drop j words))),
      j + length (takeWhile is_name_word (map strip_punct (drop j words))))"
proof (induction words j name rule: extend_name.induct)
  case (1 words j name)
  show ?case
  proof (cases "j < length words")
    case False
    then show ?thesis by (subst extend_name.simps) simp
  next
    case True
    then have d: "drop j words = words ! j # drop (j + 1) words"
      by (simp add: Cons_nth_drop_Suc)
    show ?thesis
    proof (cases "is_name_word (strip_punct (words ! j))")
      case False
      with True d show ?thesis by (subst extend_name.simps) (simp add: Let_def)
    next
      case c: True
      from "1.IH" [OF True refl c] True c d show ?thesis
        by (subst extend_name.simps) (simp add: Let_def)
    qed
  qed
qed

lemma scan_names_eq:
  "scan_names words i acc = acc @ merge_adjacent is_name_word (map strip_punct (drop i words))"
proof (induction words i acc rule: scan_names.induct)
  case (1 words i acc)
  show ?case
  proof (cases "i < length words")
    case False
    then show ?thesis by (subst scan_names.simps) simp
  next
    case True
    then have d: "drop i words = words ! i # drop (i + 1) words"
      by (simp add: Cons_nth_drop_Suc)
    let ?rest = "map strip_punct (drop (i + 1) words)"
    show ?thesis
    proof (cases "is_name_word (strip_punct (words ! i))")
      case False
      from "1.IH"(2) [OF True refl False] True False d show ?thesis
        by (subst scan_names.simps) (simp add: Let_def)
    next
      case c: True
      let ?r = "extend_name words (i + 1) (strip_punct (words ! i))"
      have s: "snd ?r - 1 + 1 = i + 1 + length (takeWhile is_name_word ?rest)"
        by (simp add: extend_name_eq)
      have dr: "map strip_punct (drop (i + 1 + length (takeWhile is_name_word ?rest)) words)
                  = dropWhile is_name_word ?rest"
        by (simp add: dropWhile_eq_drop drop_map add.commute add.left_commute)
      have "scan_names words i acc = scan_names words (snd ?r - 1 + 1) (acc @ [fst ?r])"
        using True c by (subst scan_names.simps) (simp add: Let_def)
      also have "\<dots> = (acc @ [fst ?r]) @ merge_adjacent is_name_word (map strip_punct (drop (snd ?r - 1 + 1) words))"
        by (rule "1.IH"(1) [OF True refl c refl])
      also have "\<dots> = acc @ merge_adjacent is_name_word (map strip_punct (drop i words))"
        using c by (simp only: s dr d) (simp add: extend_name_eq)
      finally show ?thesis .
    qed
  qed
qed

lemma extractNamesFromText_merge:
  "extractNamesFromText text = merge_adjacent is_name_word (map strip_punct (split_ws text))"
  by (simp add: extractNamesFromText_def scan_names_eq)

lemma foldl_space: "ws \<noteq> [] \<Longrightarrow> CHR '' '' \<in> set (foldl (\<lambda>name nextWord. name @ '' '' @ nextWord) w ws)"
  by (induction ws arbitrary: w rule: rev_induct) auto

lemma set_foldl_set_add: "set (foldl set_add s xs) = set s \<union> set xs"
  by (induction xs arbitrary: s) (auto simp: set_add_def)

lemma distinct_foldl_set_add: "distinct s \<Longrightarrow> distinct (foldl set_add s xs)"
  by (induction xs arbitrary: s) (auto simp: set_add_def)

lemma set_foldl_add_item_names:
  "set (foldl add_item_names s data)
     = set s \<union> (\<Union>item \<in> set data. set (add_item_names [] item))"
  by (induction data arbitrary: s) (auto simp: add_item_names_def set_foldl_set_add)

lemma name_word_not_common:
  assumes "n \<in> set (merge_adjacent is_name_word ws)"
  shows "\<not> isCommonWord n"
  using assms
proof (induction is_name_word ws rule: merge_adjacent.induct)
  case 1
  then show ?case by simp
next
  case (2 w ws)
  show ?case
  proof (cases "is_name_word w")
    case False
    with 2 show ?thesis by simp
  next
    case True
    show ?thesis
    proof (cases "n = join_words (w # takeWhile is_name_word ws)")
      case False
      with 2 True show ?thesis by simp
    next
      case n: True
      show ?thesis
      proof (cases "takeWhile is_name_word ws = []")
        case True
        with n \<open>is_name_word w\<close> show ?thesis by (simp add: is_name_word_def)
      next
        case False
        then have "CHR '' '' \<in> set n" using n foldl_space [OF False, of w] by simp
        moreover have "\<forall>c \<in> set commonWords. CHR '' '' \<notin> set c"
          by (simp add: commonWords_def)
        ultimately show ?thesis by (auto simp: isCommonWord_def)
      qed
    qed
  qed
qed

lemma extractClientNames_Nil: "extractClientNames [] = []"
  by (simp add: extractClientNames_def)

lemma acme_names: "extractNamesFromText ''Acme Corp needs an update'' = [''Acme Corp'']"
  by code_simp

lemma text_names_in_batch:
  assumes "item \<in> set data" "item_text item = Some t" "t \<noteq> []" "n \<in> set (extractNamesFromText t)"
  shows "n \<in> set (extractClientNames data)"
proof -
  from assms(2-4) have "n \<in> set (add_item_names [] item)"
    by (simp add: add_item_names_def set_foldl_set_add names_of_field_def)
  with assms(1) show ?thesis
    by (auto simp: extractClientNames_def set_foldl_add_item_names)
qed

lemma is_name_word_iff: "is_name_word w \<longleftrightarrow> length w > 1 \<and> spec_candidate w"
  by (auto simp: is_name_word_def spec_candidate_def)

text \<open>
  Claim C7 as stated fails on the code. The token \<open>B\<close> is capitalized and is not a stop
  word, so the stated rule makes it a candidate and merges it with its neighbour; the
  code requires more than one character, and extracts \<open>Plan\<close> alone.
\<close>

theorem single_letter_token_counterexample:
  "spec_candidate ''B'' \<and> \<not> is_name_word ''B''
   \<and> extractNamesFromText ''Plan B today'' = [''Plan'']
   \<and> spec_extract_names ''Plan B today'' = [''Plan B'']"
  by code_simp

text \<open>
  Claim C7, amended. For every batch with a record whose text is
  \<open>Acme Corp needs an update\<close>, the extracted names contain \<open>Acme Corp\<close>. No name extracted
  from a text is a stop word, so \<open>The\<close> never stands alone in the result. A token is a
  candidate iff, after its punctuation is removed, it has at least two characters, starts
  with a capital letter \<open>A\<close> to \<open>Z\<close> and is not in the stop-word list; every maximal run of
  adjacent candidates is merged into one name, the words joined by single spaces.
\<close>

theorem name_extraction:
  "(\<forall>data :: source_item list. (\<exists>item \<in> set data. item_text item = Some ''Acme Corp needs an update'')
       \<longrightarrow> ''Acme Corp'' \<in> set (extractClientNames data))
   \<and> extractNamesFromText ''Acme Corp needs an update'' = [''Acme Corp'']
   \<and> (\<forall>text n. n \<in> set (extractNamesFromText text) \<longrightarrow> \<not> isCommonWord n)
   \<and> (\<forall>text. ''The'' \<notin> set (extractNamesFromText text))
   \<and> (\<forall>text. extractNamesFromText text
          = merge_adjacent is_name_word (map strip_punct (split_ws text)))
   \<and> (\<forall>word. is_name_word word \<longleftrightarrow> length word > 1 \<and> spec_candidate word)"
proof -
  have a: "\<forall>data :: source_item list. (\<exists>item \<in> set data. item_text item = Some ''Acme Corp needs an update'')
       \<longrightarrow> ''Acme Corp'' \<in> set (extractClientNames data)"
  proof (intro allI impI)
    fix data :: "source_item list" assume "\<exists>item \<in> set data. item_text item = Some ''Acme Corp needs an update''"
    then obtain item where i: "item \<in> set data" "item_text item = Some ''Acme Corp needs an update''"
      by blast
    show "''Acme Corp'' \<in> set (extractClientNames data)"
      by (rule text_names_in_batch [OF i]) (simp_all add: acme_names)
  qed
  have c: "\<forall>text n. n \<in> set (extractNamesFromText text) \<longrightarrow> \<not> isCommonWord n"
    by (auto simp: extractNamesFromText_merge dest: name_word_not_common)
  have "isCommonWord ''The''" by (simp add: isCommonWord_def commonWords_def)
  with c have t: "\<forall>text. ''The'' \<notin> set (extractNamesFromText text)" by blast
  from a acme_names c t extractNamesFromText_merge is_name_word_iff show ?thesis by blast
qed

text \<open>A batch with the record of the claim, and a text with stop words at both ends of a
  sentence.\<close>

theorem name_extraction_witness:
  "''Acme Corp'' \<in> set (extractClientNames [quiet_item, acme_item])
   \<and> extractNamesFromText ''The Acme Corp, and Monday Foo. BAR THE'' = [''Acme Corp'', ''Foo BAR THE'']
   \<and> ''The'' \<notin> set (extractNamesFromText ''The Acme Corp, and Monday Foo. BAR THE'')"
proof -
  have h: "\<exists>item \<in> set [quiet_item, acme_item]. item_text item = Some ''Acme Corp needs an update''"
    by (simp add: acme_item_def)
  have e: "extractNamesFromText ''The Acme Corp, and Monday Foo. BAR THE'' = [''Acme Corp'', ''Foo BAR THE'']"
    by code_simp
  from name_extraction h e show ?thesis by blast
qed

section \<open>Context store: eviction, freshness and creation of clients\<close>

lemma foldl_map_delete:
  "foldl (\<lambda>m e. map_delete m (fst e)) pool rs = filter (\<lambda>e. fst e \<notin> fst ` set rs) pool"
proof (induction rs arbitrary: pool)
  case Nil
  then show ?case by simp
next
  case (Cons r rs)
  have "foldl (\<lambda>m e. map_delete m (fst e)) pool (r # rs)
          = foldl (\<lambda>m e. map_delete m (fst e)) (map_delete pool (fst r)) rs" by simp
  also have "\<dots> = filter (\<lambda>e. fst e \<notin> fst ` set rs) (map_delete pool (fst r))"
    by (rule Cons.IH)
  also have "\<dots> = filter (\<lambda>e. fst e \<notin> fst ` set (r # rs)) pool"
    by (simp add: map_delete_def)
  finally show ?case .
qed

lemma distinct_keys_mem:
  assumes "distinct (map fst pool)" "e \<in> set pool" "r \<in> set pool" "fst e = fst r"
  shows "e = r"
  using assms by (metis eq_key_imp_eq_value prod.collapse)

lemma prune_pool_over:
  assumes d: "distinct (map fst pool)" and n: "length pool > MAX_CACHE_SIZE"
  shows "prune_pool date pool
           = filter (\<lambda>e. e \<notin> set (take (length pool - MAX_CACHE_SIZE) (sort_key (\<lambda>e. date (snd e)) pool))) pool"
proof -
  let ?rs = "take (length pool - MAX_CACHE_SIZE) (sort_key (\<lambda>e. date (snd e)) pool)"
  have sub: "set ?rs \<subseteq> set pool"
    using set_take_subset [of "length pool - MAX_CACHE_SIZE" "sort_key (\<lambda>e. date (snd e)) pool"] by simp
  have "filter (\<lambda>e. fst e \<notin> fst ` set ?rs) pool = filter (\<lambda>e. e \<notin> set ?rs) pool"
  proof (rule filter_cong [OF refl])
    fix e assume e: "e \<in> set pool"
    show "(fst e \<notin> fst ` set ?rs) = (e \<notin> set ?rs)"
    proof
      assume "fst e \<notin> fst ` set ?rs" then show "e \<notin> set ?rs" by auto
    next
      assume ne: "e \<notin> set ?rs"
      show "fst e \<notin> fst ` set ?rs"
      proof
        assume "fst e \<in> fst ` set ?rs"
        then obtain r where r: "r \<in> set ?rs" "fst e = fst r" by auto
        with sub have "r \<in> set pool" by auto
        with d e r have "e = r" by (rule_tac distinct_keys_mem)
        with r ne show False by simp
      qed
    qed
  qed
  with n show ?thesis by (simp add: prune_pool_def Let_def foldl_map_delete)
qed


lemma prune_pool_oldest:
  assumes d: "distinct (map fst pool)" and n: "length pool > MAX_CACHE_SIZE"
    and gone: "x \<in> set pool" "x \<notin> set (prune_pool date pool)"
    and kept: "y \<in> set (prune_pool date pool)"
  shows "date (snd x) \<le> date (snd y)"
proof -
  let ?s = "sort_key (\<lambda>e. date (snd e)) pool"
  let ?k = "length pool - MAX_CACHE_SIZE"
  have p: "prune_pool date pool = filter (\<lambda>e. e \<notin> set (take ?k ?s)) pool"
    using d n by (rule prune_pool_over)
  from gone p have x: "x \<in> set (take ?k ?s)" by auto
  from kept p have "y \<in> set pool" "y \<notin> set (take ?k ?s)" by auto
  moreover have "set ?s = set (take ?k ?s) \<union> set (drop ?k ?s)"
    by (metis append_take_drop_id set_append)
  ultimately have y: "y \<in> set (drop ?k ?s)" by simp
  have "map (\<lambda>e. date (snd e)) ?s
          = map (\<lambda>e. date (snd e)) (take ?k ?s) @ map (\<lambda>e. date (snd e)) (drop ?k ?s)"
    by (metis append_take_drop_id map_append)
  moreover have "sorted (map (\<lambda>e. date (snd e)) ?s)" by (rule sorted_sort_key)
  ultimately have "sorted (map (\<lambda>e. date (snd e)) (take ?k ?s) @ map (\<lambda>e. date (snd e)) (drop ?k ?s))"
    by simp
  then have "\<forall>a \<in> set (map (\<lambda>e. date (snd e)) (take ?k ?s)).
               \<forall>b \<in> set (map (\<lambda>e. date (snd e)) (drop ?k ?s)). a \<le> b"
    by (simp only: sorted_append) blast
  moreover have "date (snd x) \<in> set (map (\<lambda>e. date (snd e)) (take ?k ?s))" using x by simp
  moreover have "date (snd y) \<in> set (map (\<lambda>e. date (snd e)) (drop ?k ?s))" using y by simp
  ultimately show ?thesis by blast
qed

lemma prune_pool_under: "length pool \<le> MAX_CACHE_SIZE \<Longrightarrow> prune_pool date pool = pool"
  by (simp add: prune_pool_def)

lemma prune_pool_subset: "set (prune_pool date pool) \<subseteq> set pool"
  by (auto simp: prune_pool_def foldl_map_delete Let_def)

lemma map_set_keys: "fst ` set (map_set m k v) = insert k (fst ` set m)"
  by (induction m) auto



lemma set_clients_keys: "fst ` set pool \<subseteq> fst ` set (set_clients pool clients)"
  unfolding set_clients_def
proof (induction clients arbitrary: pool)
  case Nil
  then show ?case by simp
next
  case (Cons c cs)
  have "fst ` set pool \<subseteq> fst ` set (if cl_id c \<noteq> [] then map_set pool (cl_id c) c else pool)"
    by (auto simp: map_set_keys)
  also have "\<dots> \<subseteq> fst ` set (foldl (\<lambda>m c. if cl_id c \<noteq> [] then map_set m (cl_id c) c else m)
                               (if cl_id c \<noteq> [] then map_set pool (cl_id c) c else pool) cs)"
    by (rule Cons.IH)
  finally show ?case by simp
qed



lemma uuid_of_inj: "uuid_of m = uuid_of n \<longleftrightarrow> m = n"
proof
  assume "uuid_of m = uuid_of n"
  then have "length (uuid_of m) = length (uuid_of n)" by simp
  then show "m = n" by (simp add: uuid_of_def)
qed simp







lemma map_get_has: "map_get m k = Some v \<Longrightarrow> map_has m k"
  by (auto simp: map_get_def map_has_def dest: map_of_SomeD intro: rev_image_eqI)

lemma updateClientCache_lastUpdated:
  "clients \<noteq> [] \<Longrightarrow> cache_lastUpdated (updateClientCache now clients cache) = now"
  by (simp add: updateClientCache_def Let_def pruneCache_def)

lemma mention_cached_lastUpdated [simp]:
  "cache_lastUpdated (mention_cached now ids cache) = cache_lastUpdated cache"
  by (simp add: mention_cached_def)

lemma updateClientLastMentioned_lastUpdated:
  "cache_lastUpdated (fst (updateClientLastMentioned now ids cache db)) = cache_lastUpdated cache"
  by (auto simp: updateClientLastMentioned_def split: prod.splits sum.splits)

lemma updateClientCache_keeps_residents:
  assumes "length (set_clients (cache_clients cache) clients) \<le> MAX_CACHE_SIZE"
    and "map_has (cache_clients cache) k"
  shows "map_has (cache_clients (updateClientCache now clients cache)) k"
  using assms set_clients_keys [of "cache_clients cache" clients]
  by (auto simp: updateClientCache_def Let_def map_has_def)

lemma batch_lookup_sets_lastUpdated:
  assumes names: "extractClientNames items \<noteq> []"
    and miss: "\<not> (length (getCachedClients (extractClientNames items) cache)
                    = length (extractClientNames items)
                  \<and> int now - int (cache_lastUpdated cache) < CACHE_TTL)"
    and ask: "missing_names now (extractClientNames items)
                (getCachedClients (extractClientNames items) cache) cache \<noteq> []"
    and rows: "fst (db_clients_by_names
                 (missing_names now (extractClientNames items)
                    (getCachedClients (extractClientNames items) cache) cache) db) = Inr clients"
    and ne: "clients \<noteq> []"
  shows "cache_lastUpdated (fst (snd (getRelevantClientContext now (Some items) cache db))) = now"
proof -
  from names have items: "items \<noteq> []" by (auto simp: extractClientNames_Nil)
  obtain db1 where q: "db_clients_by_names
                 (missing_names now (extractClientNames items)
                    (getCachedClients (extractClientNames items) cache) cache) db = (Inr clients, db1)"
    using rows by (metis fst_conv surj_pair)
  show ?thesis
    using items names miss ask ne
    by (auto simp: getRelevantClientContext_def Let_def q updateClientLastMentioned_lastUpdated
        updateClientCache_lastUpdated)
qed



text \<open>
  Claim C8. When \<open>getRelevantClientContext\<close> is given no data (\<open>null\<close> or an empty
  array), or data from which no client name is extracted, it returns the empty bundle
  and leaves the cache and the store as they were: no entry is read or written, no
  request reaches the store (\<open>served\<close> and the fault plan are part of the store), and no
  \<open>last_mentioned\<close> is bumped.
\<close>

theorem no_names_no_effect:
  assumes "data = None \<or> data = Some [] \<or> (\<exists>items. data = Some items \<and> extractClientNames items = [])"
  shows "getRelevantClientContext now data cache db = ([], cache, db)"
  using assms by (auto simp: getRelevantClientContext_def Let_def)

text \<open>A batch whose only record has no capitalized word, and an empty batch.\<close>

theorem no_names_no_effect_witness:
  "getRelevantClientContext 1700000000000 (Some [quiet_item]) full_cache sample_store
     = ([], full_cache, sample_store)
   \<and> getRelevantClientContext 1700000000000 (Some []) full_cache sample_store
     = ([], full_cache, sample_store)"
proof -
  have "extractClientNames [quiet_item] = []" by code_simp
  then show ?thesis
    using no_names_no_effect [of "Some [quiet_item]" 1700000000000 full_cache sample_store]
      no_names_no_effect [of "Some []" 1700000000000 full_cache sample_store]
    by simp
qed

text \<open>
  Claim C9. Freshness of the client pool is one time stamp for the whole pool. Setting a
  non-empty list of clients into the cache at time \<open>now\<close> sets \<open>lastUpdated\<close> to \<open>now\<close>,
  and so does a batch lookup of \<open>getRelevantClientContext\<close> that the store answers with
  these clients. Residents stay resident when the pool stays within its capacity. From
  then on every resident client, whenever it was inserted, is served from the cache by
  \<open>getClientById\<close> and by a fully cached batch read, without a request to the store, at
  every time \<open>later\<close> with \<open>later - now < CACHE_TTL\<close>; once \<open>later - now \<ge> CACHE_TTL\<close> a
  read by identifier goes to the store.
\<close>

theorem pool_wide_freshness:
  assumes ne: "clients \<noteq> []"
  shows "CACHE_TTL = 5 * 60 * 1000
    \<and> cache_lastUpdated (updateClientCache now clients cache) = now
    \<and> (\<forall>items db.
          extractClientNames items \<noteq> []
          \<and> \<not> (length (getCachedClients (extractClientNames items) cache)
                   = length (extractClientNames items)
                 \<and> int now - int (cache_lastUpdated cache) < CACHE_TTL)
          \<and> missing_names now (extractClientNames items)
                (getCachedClients (extractClientNames items) cache) cache \<noteq> []
          \<and> fst (db_clients_by_names
                 (missing_names now (extractClientNames items)
                    (getCachedClients (extractClientNames items) cache) cache) db) = Inr clients
          \<longrightarrow> cache_lastUpdated (fst (snd (getRelevantClientContext now (Some items) cache db))) = now)
    \<and> (length (set_clients (cache_clients cache) clients) \<le> MAX_CACHE_SIZE \<longrightarrow>
         (\<forall>k. map_has (cache_clients cache) k
              \<longrightarrow> map_has (cache_clients (updateClientCache now clients cache)) k))
    \<and> (\<forall>clientId c later db.
          map_get (cache_clients (updateClientCache now clients cache)) clientId = Some c
          \<and> clientId \<noteq> [] \<and> int later - int now < CACHE_TTL
          \<longrightarrow> getClientById later clientId (updateClientCache now clients cache) db
                = (Some c, updateClientCache now clients cache, db))
    \<and> (\<forall>items later db.
          extractClientNames items \<noteq> []
          \<and> length (getCachedClients (extractClientNames items) (updateClientCache now clients cache))
               = length (extractClientNames items)
          \<and> int later - int now < CACHE_TTL
          \<longrightarrow> getRelevantClientContext later (Some items) (updateClientCache now clients cache) db
                = (getCachedClients (extractClientNames items) (updateClientCache now clients cache),
                   updateClientCache now clients cache, db))
    \<and> (\<forall>clientId later db.
          clientId \<noteq> [] \<and> int later - int now \<ge> CACHE_TTL
          \<longrightarrow> served (snd (snd (getClientById later clientId (updateClientCache now clients cache) db)))
                = served db + 1)"
proof -
  let ?c = "updateClientCache now clients cache"
  have t: "cache_lastUpdated ?c = now" using ne by (rule updateClientCache_lastUpdated)
  have r: "length (set_clients (cache_clients cache) clients) \<le> MAX_CACHE_SIZE \<longrightarrow>
         (\<forall>k. map_has (cache_clients cache) k \<longrightarrow> map_has (cache_clients ?c) k)"
    by (auto intro: updateClientCache_keeps_residents)
  have g: "\<forall>clientId c later db.
          map_get (cache_clients ?c) clientId = Some c \<and> clientId \<noteq> [] \<and> int later - int now < CACHE_TTL
          \<longrightarrow> getClientById later clientId ?c db = (Some c, ?c, db)"
    by (auto simp: getClientById_def t dest: map_get_has)
  have b: "\<forall>items later db.
          extractClientNames items \<noteq> []
          \<and> length (getCachedClients (extractClientNames items) ?c) = length (extractClientNames items)
          \<and> int later - int now < CACHE_TTL
          \<longrightarrow> getRelevantClientContext later (Some items) ?c db
                = (getCachedClients (extractClientNames items) ?c, ?c, db)"
    by (auto simp: getRelevantClientContext_def Let_def t extractClientNames_Nil)
  have s: "\<forall>clientId later db. clientId \<noteq> [] \<and> int later - int now \<ge> CACHE_TTL
          \<longrightarrow> served (snd (snd (getClientById later clientId ?c db))) = served db + 1"
    by (auto simp: getClientById_def t db_client_by_id_def serve_def split: option.splits sum.splits prod.splits)
  have q: "\<forall>items db.
          extractClientNames items \<noteq> []
          \<and> \<not> (length (getCachedClients (extractClientNames items) cache)
                   = length (extractClientNames items)
                 \<and> int now - int (cache_lastUpdated cache) < CACHE_TTL)
          \<and> missing_names now (extractClientNames items)
                (getCachedClients (extractClientNames items) cache) cache \<noteq> []
          \<and> fst (db_clients_by_names
                 (missing_names now (extractClientNames items)
                    (getCachedClients (extractClientNames items) cache) cache) db) = Inr clients
          \<longrightarrow> cache_lastUpdated (fst (snd (getRelevantClientContext now (Some items) cache db))) = now"
    using ne by (blast intro: batch_lookup_sets_lastUpdated)
  have ttl: "CACHE_TTL = 5 * 60 * 1000" by (simp add: CACHE_TTL_def)
  from ttl t q r g b s show ?thesis by blast
qed

text \<open>A pool that went stale long ago receives client 2; client 0, resident since then,
  is served from the cache 299999 ms later.\<close>

theorem pool_wide_freshness_witness:
  "isCacheStale 1700000000000 stale_cache
   \<and> getClientById 1700000299999 (uuid_of 0)
        (updateClientCache 1700000000000 [sample_client 2] stale_cache) sample_store
      = (Some (sample_client 0),
         updateClientCache 1700000000000 [sample_client 2] stale_cache, sample_store)"
proof -
  have h: "[sample_client 2] \<noteq> []" by simp
  have s: "isCacheStale 1700000000000 stale_cache"
    by (simp add: isCacheStale_def stale_cache_def CACHE_TTL_def)
  have g: "map_get (cache_clients (updateClientCache 1700000000000 [sample_client 2] stale_cache))
             (uuid_of 0) = Some (sample_client 0)"
    by (simp add: updateClientCache_def stale_cache_def set_clients_def sample_client_def
        uuid_of_inj uuid_of_def map_get_def MAX_CACHE_SIZE_def Let_def)
  have u: "uuid_of 0 \<noteq> []" by (simp add: uuid_of_def)
  have t: "int 1700000299999 - int 1700000000000 < CACHE_TTL" by (simp add: CACHE_TTL_def)
  from pool_wide_freshness [OF h, of 1700000000000 stale_cache] g u t s
  show ?thesis by blast
qed



section \<open>Feedback handler: validation, normalization and the pattern cache\<close>

lemma served_mono_summary: "served (snd (db_summary_by_id i db)) = served db + 1"
  by (simp add: db_summary_by_id_def serve_def split: option.splits)

lemma served_feedback_since: "served (snd (db_feedback_since t db)) = served db + 1"
  by (simp add: db_feedback_since_def serve_def split: option.splits)

lemma served_recent_edit: "served (snd (db_recent_edit_analyses db)) = served db + 1"
  by (simp add: db_recent_edit_analyses_def serve_def split: option.splits)

lemma served_tally: "served db \<le> served (snd (snd (tally_feedback (s, t, db) f)))"
  by (simp add: tally_feedback_def Let_def served_mono_summary split: prod.splits sum.splits)
     (metis le_add1 served_mono_summary snd_conv)+

lemma served_foldl_tally:
  "served (snd (snd acc)) \<le> served (snd (snd (foldl tally_feedback acc fs)))"
proof (induction fs arbitrary: acc)
  case Nil
  then show ?case by simp
next
  case (Cons f fs)
  obtain s t db where a: "acc = (s, t, db)" by (cases acc) auto
  have "served (snd (snd acc)) \<le> served (snd (snd (tally_feedback acc f)))"
    unfolding a using served_tally [of db s t f] by simp
  also have "\<dots> \<le> served (snd (snd (foldl tally_feedback (tally_feedback acc f) fs)))"
    by (rule Cons.IH)
  finally show ?case by simp
qed

lemma served_getFeedbackStats: "served db < served (snd (getFeedbackStats now days db))"
proof -
  let ?q = "db_feedback_since (int now - int (days * MS_PER_DAY)) db"
  have q: "served (snd ?q) = served db + 1" by (rule served_feedback_since)
  show ?thesis
  proof (cases ?q)
    case (Pair a db1)
    with q have s1: "served db1 = served db + 1" by simp
    show ?thesis
    proof (cases a)
      case (Inl e)
      with Pair s1 show ?thesis by (simp add: getFeedbackStats_def)
    next
      case (Inr feedback)
      have "served db1 \<le> served (snd (snd (foldl tally_feedback ([], [], db1) feedback)))"
        using served_foldl_tally [of "([], [], db1)" feedback] by simp
      with Pair Inr s1 show ?thesis by (simp add: getFeedbackStats_def Let_def)
    qed
  qed
qed

lemma served_computePatterns: "served db + 2 \<le> served (snd (computePatterns tm now db))"
  using served_getFeedbackStats [of db now 30]
  by (simp add: computePatterns_def Let_def served_recent_edit)

lemma fb_summary_by_id [simp]: "feedback_tbl (snd (db_summary_by_id i db)) = feedback_tbl db"
  by (simp add: db_summary_by_id_def serve_def split: option.splits)

lemma fb_recent_summaries [simp]: "feedback_tbl (snd (db_recent_summaries s db)) = feedback_tbl db"
  by (simp add: db_recent_summaries_def serve_def split: option.splits)

lemma fb_rejections_of [simp]: "feedback_tbl (snd (db_rejections_of i db)) = feedback_tbl db"
  by (simp add: db_rejections_of_def serve_def split: option.splits)

lemma fb_insert_pattern [simp]: "feedback_tbl (snd (db_insert_pattern r db)) = feedback_tbl db"
  by (simp add: db_insert_pattern_def serve_def split: option.splits)

lemma fb_insert_edit_analysis [simp]:
  "feedback_tbl (snd (db_insert_edit_analysis r db)) = feedback_tbl db"
  by (simp add: db_insert_edit_analysis_def serve_def split: option.splits)

lemma fb_insert_rejection_analysis [simp]:
  "feedback_tbl (snd (db_insert_rejection_analysis r db)) = feedback_tbl db"
  by (simp add: db_insert_rejection_analysis_def serve_def split: option.splits)

lemma fb_insert_analytics [simp]: "feedback_tbl (snd (db_insert_analytics r db)) = feedback_tbl db"
  by (simp add: db_insert_analytics_def serve_def split: option.splits)

lemma fb_analyzeEdits [simp]: "feedback_tbl (analyzeEdits tm now s t db) = feedback_tbl db"
  by (simp add: analyzeEdits_def Let_def)

lemma fb_count_rejection [simp]:
  "feedback_tbl (snd (count_rejection s acc r)) = feedback_tbl (snd acc)"
proof (cases "db_rejections_of (sm_id r) (snd acc)")
  case (Pair a db')
  have "feedback_tbl db' = feedback_tbl (snd acc)"
    using fb_rejections_of [of "sm_id r" "snd acc"] Pair by simp
  with Pair show ?thesis by (cases a) (simp_all add: count_rejection_def)
qed

lemma fb_foldl_count_rejection [simp]:
  "feedback_tbl (snd (foldl (count_rejection s) acc rs)) = feedback_tbl (snd acc)"
  by (induction rs arbitrary: acc) simp_all

lemma fb_analyzeRejection [simp]: "feedback_tbl (analyzeRejection now s db) = feedback_tbl db"
proof (cases "db_recent_summaries (sm_source s) db")
  case (Pair a db1)
  have "feedback_tbl db1 = feedback_tbl db"
    using fb_recent_summaries [of "sm_source s" db] Pair by simp
  with Pair show ?thesis by (cases a) (simp_all add: analyzeRejection_def Let_def)
qed

lemma fb_updateFeedbackPatterns [simp]:
  "feedback_tbl (snd (updateFeedbackPatterns tm now i r c cache db)) = feedback_tbl db"
proof (cases "db_summary_by_id i db")
  case (Pair a db1)
  have "feedback_tbl db1 = feedback_tbl db"
    using fb_summary_by_id [of i db] Pair by simp
  with Pair show ?thesis by (cases a) (simp_all add: updateFeedbackPatterns_def Let_def)
qed

lemma fb_trackFeedbackAnalytics [simp]:
  "feedback_tbl (trackFeedbackAnalytics now i r c db) = feedback_tbl db"
proof (cases "db_summary_by_id i db")
  case (Pair a db1)
  have "feedback_tbl db1 = feedback_tbl db"
    using fb_summary_by_id [of i db] Pair by simp
  with Pair show ?thesis by (cases a) (simp_all add: trackFeedbackAnalytics_def)
qed

lemma db_insert_feedback_stored:
  assumes "db_insert_feedback row db = (Inr stored, db1)"
  shows "stored \<in> set (feedback_tbl db1) \<and> stored = row\<lparr>fb_id := uuid_of (next_uuid db)\<rparr>"
  using assms
  by (auto simp: db_insert_feedback_def serve_def Let_def split: option.splits if_splits)

lemma db_insert_feedback_refused:
  assumes "db_insert_feedback row db = (Inl e, db1)"
  shows "feedback_tbl db1 = feedback_tbl db"
  using assms
  by (auto simp: db_insert_feedback_def serve_def Let_def split: option.splits if_splits)

text \<open>The outcome of \<open>storeFeedback\<close> in terms of the insert.\<close>

lemma storeFeedback_outcome:
  assumes "sid \<noteq> []"
  shows "storeFeedback tm now (Some sid) rating comment userId cache db =
     (let rating' = (if rating \<in> set RATING_TYPES then rating else ''approved'');
          feedbackData =
            \<lparr>fb_id = [], fb_summary_id = sid, fb_rating = rating', fb_comment = comment,
             fb_user_id = (if truthy userId then userId else None), fb_created_at = now\<rparr>
      in case db_insert_feedback feedbackData db of
           (Inl error, db1) \<Rightarrow> (Inr None, cache, db1)
         | (Inr feedback, db1) \<Rightarrow>
             (Inr (Some feedback),
              (fst (updateFeedbackPatterns tm now sid rating' comment cache db1))\<lparr>fpc_patterns := None\<rparr>,
              trackFeedbackAnalytics now sid rating' comment
                (snd (updateFeedbackPatterns tm now sid rating' comment cache db1))))"
  using assms by (auto simp: storeFeedback_def Let_def split: prod.splits sum.splits)

text \<open>A call of \<open>storeFeedback\<close> that returns \<open>null\<close> has stored nothing and leaves the cached
  patterns as they were.\<close>

lemma storeFeedback_null:
  assumes "storeFeedback tm now summaryId rating comment userId cache db = (Inr None, cache', db')"
  shows "cache' = cache \<and> feedback_tbl db' = feedback_tbl db"
proof (cases "truthy summaryId")
  case False
  with assms show ?thesis
    by (auto simp: storeFeedback_def truthy_def split: option.splits if_splits)
next
  case True
  then obtain sid where sid: "summaryId = Some sid" "sid \<noteq> []"
    by (auto simp: truthy_def split: option.splits)
  let ?row = "\<lparr>fb_id = [], fb_summary_id = sid,
               fb_rating = (if rating \<in> set RATING_TYPES then rating else ''approved''),
               fb_comment = comment,
               fb_user_id = (if truthy userId then userId else None), fb_created_at = now\<rparr>"
  show ?thesis
  proof (cases "db_insert_feedback ?row db")
    case (Pair a db1)
    show ?thesis
    proof (cases a)
      case (Inl e)
      with Pair assms sid have "cache' = cache" "db' = db1"
        by (simp_all add: storeFeedback_outcome Let_def)
      moreover have "feedback_tbl db1 = feedback_tbl db"
        using Pair Inl db_insert_feedback_refused [of ?row db e db1] by simp
      ultimately show ?thesis by simp
    next
      case (Inr stored)
      with Pair assms sid show ?thesis by (simp add: storeFeedback_outcome Let_def)
    qed
  qed
qed

lemma first_call:
  "getFeedbackPatterns sample_metrics 1700000000000 initial_patterns_cache feedback_store
     = (quiet_patterns,
        \<lparr>fpc_patterns = Some quiet_patterns, fpc_lastUpdated = 1700000000000\<rparr>,
        feedback_store\<lparr>served := 2\<rparr>)"
  by (simp add: getFeedbackPatterns_def initial_patterns_cache_def computePatterns_def
      getFeedbackStats_def db_feedback_since_def db_recent_edit_analyses_def next_fault_def
      serve_def feedback_store_def sample_store_def zero_stats_def quiet_patterns_def
      rate_or_def percent_def newest_first_def Let_def)

text \<open>
  Claim C1 as stated fails on the code: with an empty \<open>summaryId\<close> the call does not fail
  with a validation error, its promise resolves to \<open>null\<close>, the very value that a call
  refused by the store resolves to.
\<close>

theorem empty_summary_id_counterexample:
  "storeFeedback sample_metrics 1700000000000 (Some []) ''approved'' ''fine'' None
     initial_patterns_cache feedback_store
     = (Inr None, initial_patterns_cache, feedback_store)
   \<and> fst (storeFeedback sample_metrics 1700000000000 (Some ''s1'') ''approved'' ''fine'' None
          initial_patterns_cache (feedback_store\<lparr>fault_plan := [Some (DbError ''ETIMEDOUT'')]\<rparr>))
     = Inr None"
  by (simp add: storeFeedback_def db_insert_feedback_def next_fault_def feedback_store_def
      sample_store_def RATING_TYPES_def Let_def)

text \<open>
  Claim C1, amended. A call of \<open>storeFeedback\<close> whose \<open>summaryId\<close> is \<open>null\<close>, \<open>undefined\<close>
  or the empty string returns \<open>null\<close> at once, without raising an error: the promise
  resolves to \<open>null\<close>. No request reaches the store, so no feedback record is persisted,
  and the cached patterns are not invalidated.
\<close>

theorem empty_summary_id_returns_null:
  assumes "summaryId = None \<or> summaryId = Some []"
  shows "storeFeedback tm now summaryId rating comment userId cache db = (Inr None, cache, db)"
  using assms by (auto simp: storeFeedback_def)

text \<open>A call without a summary: nothing is stored, and the feedback relation stays empty.\<close>

theorem empty_summary_id_returns_null_witness:
  "storeFeedback sample_metrics 1700000000000 None ''rejected'' [] (Some ''u1'')
     initial_patterns_cache feedback_store
     = (Inr None, initial_patterns_cache, feedback_store)
   \<and> feedback_tbl feedback_store = []"
  using empty_summary_id_returns_null [of None sample_metrics 1700000000000 "''rejected''" "[]"
      "Some ''u1''" initial_patterns_cache feedback_store]
  by (simp add: feedback_store_def sample_store_def)

lemma bogus_insert:
  "fst (db_insert_feedback
          \<lparr>fb_id = [], fb_summary_id = ''s1'', fb_rating = ''approved'', fb_comment = ''looks good'',
           fb_user_id = (if truthy None then None else None), fb_created_at = 1700000000000\<rparr>
          feedback_store)
     = Inr \<lparr>fb_id = uuid_of 3, fb_summary_id = ''s1'', fb_rating = ''approved'',
            fb_comment = ''looks good'', fb_user_id = None, fb_created_at = 1700000000000\<rparr>"
  by (simp add: db_insert_feedback_def next_fault_def feedback_store_def sample_store_def Let_def)

text \<open>
  Claim C4. A call of \<open>storeFeedback\<close> with a non-empty \<open>summaryId\<close> and a rating outside
  \<open>approved\<close>, \<open>edited\<close>, \<open>rejected\<close> is not rejected: it behaves exactly as the call with
  the rating \<open>approved\<close>. When the store accepts the insert, the stored record is
  returned, it is in the feedback relation afterwards, and its rating is \<open>approved\<close>. The
  call returns \<open>null\<close> only when the store refuses the insert, and never raises.
\<close>

theorem unknown_rating_stored_as_approved:
  assumes sid: "sid \<noteq> []" and bogus: "rating \<notin> set RATING_TYPES"
  shows "storeFeedback tm now (Some sid) rating comment userId cache db
           = storeFeedback tm now (Some sid) ''approved'' comment userId cache db
    \<and> (\<forall>stored.
          fst (db_insert_feedback
                 \<lparr>fb_id = [], fb_summary_id = sid, fb_rating = ''approved'', fb_comment = comment,
                  fb_user_id = (if truthy userId then userId else None), fb_created_at = now\<rparr> db)
            = Inr stored
          \<longrightarrow> fst (storeFeedback tm now (Some sid) rating comment userId cache db) = Inr (Some stored)
              \<and> stored \<in> set (feedback_tbl (snd (snd (storeFeedback tm now (Some sid) rating comment userId cache db))))
              \<and> fb_rating stored = ''approved'' \<and> fb_summary_id stored = sid
              \<and> fb_comment stored = comment)
    \<and> (fst (storeFeedback tm now (Some sid) rating comment userId cache db) = Inr None
         \<longleftrightarrow> (\<exists>error.
               fst (db_insert_feedback
                      \<lparr>fb_id = [], fb_summary_id = sid, fb_rating = ''approved'', fb_comment = comment,
                       fb_user_id = (if truthy userId then userId else None), fb_created_at = now\<rparr> db)
                 = Inl error))
    \<and> (\<forall>error. fst (storeFeedback tm now (Some sid) rating comment userId cache db) \<noteq> Inl error)"
proof -
  let ?row = "\<lparr>fb_id = [], fb_summary_id = sid, fb_rating = ''approved'', fb_comment = comment,
                fb_user_id = (if truthy userId then userId else None), fb_created_at = now\<rparr>"
  let ?r = "storeFeedback tm now (Some sid) rating comment userId cache db"
  have ap: "''approved'' \<in> set RATING_TYPES" by (simp add: RATING_TYPES_def)
  have same: "?r = storeFeedback tm now (Some sid) ''approved'' comment userId cache db"
    using bogus ap by (simp add: storeFeedback_outcome [OF sid] Let_def)
  show ?thesis
  proof (cases "db_insert_feedback ?row db")
    case (Pair a db1)
    show ?thesis
    proof (cases a)
      case (Inl e)
      with Pair bogus have r: "?r = (Inr None, cache, db1)"
        by (simp add: storeFeedback_outcome [OF sid] Let_def)
      have i: "fst (db_insert_feedback ?row db) = Inl e" using Pair Inl by simp
      have p2: "\<forall>stored. fst (db_insert_feedback ?row db) = Inr stored
          \<longrightarrow> fst ?r = Inr (Some stored)
              \<and> stored \<in> set (feedback_tbl (snd (snd ?r)))
              \<and> fb_rating stored = ''approved'' \<and> fb_summary_id stored = sid
              \<and> fb_comment stored = comment" by (simp add: i)
      have p3: "fst ?r = Inr None \<longleftrightarrow> (\<exists>error. fst (db_insert_feedback ?row db) = Inl error)"
        by (simp add: i r)
      have p4: "\<forall>error. fst ?r \<noteq> Inl error" by (simp add: r)
      from same p2 p3 p4 show ?thesis by blast
    next
      case (Inr stored)
      with Pair bogus have r: "?r = (Inr (Some stored),
              (fst (updateFeedbackPatterns tm now sid ''approved'' comment cache db1))\<lparr>fpc_patterns := None\<rparr>,
              trackFeedbackAnalytics now sid ''approved'' comment
                (snd (updateFeedbackPatterns tm now sid ''approved'' comment cache db1)))"
        by (simp add: storeFeedback_outcome [OF sid] Let_def)
      have eq: "db_insert_feedback ?row db = (Inr stored, db1)" using Pair Inr by simp
      have st1: "stored \<in> set (feedback_tbl db1)"
        using db_insert_feedback_stored [OF eq] by blast
      have st2: "stored = ?row\<lparr>fb_id := uuid_of (next_uuid db)\<rparr>"
        using db_insert_feedback_stored [OF eq] by blast
      have f: "fb_rating stored = ''approved''" "fb_summary_id stored = sid"
        "fb_comment stored = comment" by (simp_all add: st2)
      from r st1 have m: "stored \<in> set (feedback_tbl (snd (snd ?r)))" by simp
      have i: "fst (db_insert_feedback ?row db) = Inr stored" using Pair Inr by simp
      have p2: "\<forall>stored. fst (db_insert_feedback ?row db) = Inr stored
          \<longrightarrow> fst ?r = Inr (Some stored)
              \<and> stored \<in> set (feedback_tbl (snd (snd ?r)))
              \<and> fb_rating stored = ''approved'' \<and> fb_summary_id stored = sid
              \<and> fb_comment stored = comment" using m f by (simp add: i r)
      have p3: "fst ?r = Inr None \<longleftrightarrow> (\<exists>error. fst (db_insert_feedback ?row db) = Inl error)"
        by (simp add: i r)
      have p4: "\<forall>error. fst ?r \<noteq> Inl error" by (simp add: r)
      from same p2 p3 p4 show ?thesis by blast
    qed
  qed
qed

text \<open>The rating \<open>bogus\<close> for the summary \<open>s1\<close> is stored as \<open>approved\<close>.\<close>

theorem unknown_rating_stored_as_approved_witness:
  "fst (storeFeedback sample_metrics 1700000000000 (Some ''s1'') ''bogus'' ''looks good'' None
          initial_patterns_cache feedback_store)
     = Inr (Some \<lparr>fb_id = uuid_of 3, fb_summary_id = ''s1'', fb_rating = ''approved'',
                  fb_comment = ''looks good'', fb_user_id = None,
                  fb_created_at = 1700000000000\<rparr>)
   \<and> \<lparr>fb_id = uuid_of 3, fb_summary_id = ''s1'', fb_rating = ''approved'',
        fb_comment = ''looks good'', fb_user_id = None, fb_created_at = 1700000000000\<rparr>
       \<in> set (feedback_tbl (snd (snd (storeFeedback sample_metrics 1700000000000 (Some ''s1'')
                ''bogus'' ''looks good'' None initial_patterns_cache feedback_store))))"
proof -
  have h1: "''s1'' \<noteq> []" by simp
  have h2: "''bogus'' \<notin> set RATING_TYPES" by (simp add: RATING_TYPES_def)
  from unknown_rating_stored_as_approved [OF h1 h2, of sample_metrics 1700000000000
      "''looks good''" None initial_patterns_cache feedback_store] bogus_insert
  show ?thesis by blast
qed

lemma edit_feedback_eq:
  "edit_feedback =
     (Inr (Some \<lparr>fb_id = uuid_of 3, fb_summary_id = ''s1'', fb_rating = ''edited'',
                 fb_comment = ''Short digest'', fb_user_id = None,
                 fb_created_at = 1700000090000\<rparr>),
      \<lparr>fpc_patterns = None, fpc_lastUpdated = 1700000000000\<rparr>,
      sample_store
        \<lparr>summaries_tbl :=
           [\<lparr>sm_id = ''s1'', sm_source = ''slack'', sm_summary = ''Weekly digest of the channel'',
             sm_created_at = 1699990000000\<rparr>],
         feedback_tbl :=
           [\<lparr>fb_id = uuid_of 3, fb_summary_id = ''s1'', fb_rating = ''edited'',
             fb_comment = ''Short digest'', fb_user_id = None, fb_created_at = 1700000090000\<rparr>],
         feedback_patterns_tbl :=
           Some [\<lparr>fp_summary_id = ''s1'', fp_rating = ''edited'', fp_source = ''slack'',
                  fp_pattern_type = ''edit'', fp_content = ''Weekly digest of the channel'',
                  fp_user_edit = Some ''Short digest'', fp_created_at = 1700000090000\<rparr>],
         edit_analyses_tbl :=
           Some [\<lparr>ea_summary_id = ''s1'', ea_original_length = 28, ea_edited_length = 12,
                  ea_length_change_percent = - 400 / 7,
                  ea_tone_change = ''neutral to formal'', ea_style_change = ''more concise'',
                  ea_created_at = 1700000090000\<rparr>],
         next_uuid := 4, served := 8\<rparr>)"
  by (simp add: edit_feedback_def storeFeedback_def db_insert_feedback_def next_fault_def
      feedback_store_def sample_store_def RATING_TYPES_def Let_def serve_def truthy_def
      updateFeedbackPatterns_def db_summary_by_id_def single_def db_insert_pattern_def
      analyzeEdits_def db_insert_edit_analysis_def trackFeedbackAnalytics_def
      db_insert_analytics_def warm_cache_def sample_metrics_def percent_def)

lemma third_call:
  "fst (computePatterns sample_metrics 1700000120000 (snd (snd edit_feedback))) = learned_patterns"
  by (simp add: edit_feedback_eq computePatterns_def getFeedbackStats_def db_feedback_since_def
      db_recent_edit_analyses_def next_fault_def serve_def sample_store_def MS_PER_DAY_def
      tally_feedback_def db_summary_by_id_def single_def bump_def map_get_def
      rate_or_def percent_def newest_first_def sample_metrics_def learned_patterns_def Let_def)

text \<open>
  Claim C6. Let a first call of \<open>getFeedbackPatterns\<close> return \<open>p1\<close> and leave the cache
  \<open>cache1\<close>. A second call within the TTL of that cache, with no feedback stored in
  between, returns the same \<open>p1\<close> and changes neither the cache nor the store: nothing
  is recomputed and no request is made. A \<open>storeFeedback\<close> call that stores its record
  empties the cache, so a third call after it recomputes: its result is the pattern
  object computed from the store at that time, which becomes the cached value, and the
  store has served at least two more requests.
\<close>

theorem preference_profile_cache:
  assumes first: "getFeedbackPatterns tm t1 cache0 db0 = (p1, cache1, db1)"
    and within: "int t2 - int (fpc_lastUpdated cache1) < fpc_ttl"
    and stored: "storeFeedback tm tw summaryId rating comment userId cache1 db1
                  = (Inr (Some row), cache2, db2)"
  shows "fpc_ttl = 5 * 60 * 1000
    \<and> getFeedbackPatterns tm t2 cache1 db1 = (p1, cache1, db1)
    \<and> fpc_patterns cache2 = None
    \<and> getFeedbackPatterns tm t3 cache2 db2
        = (fst (computePatterns tm t3 db2),
           \<lparr>fpc_patterns = Some (fst (computePatterns tm t3 db2)), fpc_lastUpdated = t3\<rparr>,
           snd (computePatterns tm t3 db2))
    \<and> served db2 + 2 \<le> served (snd (snd (getFeedbackPatterns tm t3 cache2 db2)))"
proof -
  from first have c1: "fpc_patterns cache1 = Some p1"
    by (auto simp: getFeedbackPatterns_def Let_def split: option.splits if_splits)
  with within have second: "getFeedbackPatterns tm t2 cache1 db1 = (p1, cache1, db1)"
    by (simp add: getFeedbackPatterns_def Let_def)
  from stored have c2: "fpc_patterns cache2 = None"
    by (auto simp: storeFeedback_def Let_def split: option.splits if_splits prod.splits sum.splits)
  then have third: "getFeedbackPatterns tm t3 cache2 db2
        = (fst (computePatterns tm t3 db2),
           \<lparr>fpc_patterns = Some (fst (computePatterns tm t3 db2)), fpc_lastUpdated = t3\<rparr>,
           snd (computePatterns tm t3 db2))"
    by (simp add: getFeedbackPatterns_def Let_def)
  from third have "served db2 + 2 \<le> served (snd (snd (getFeedbackPatterns tm t3 cache2 db2)))"
    using served_computePatterns [of db2 tm t3] by simp
  with second c2 third show ?thesis by (simp add: fpc_ttl_def)
qed

text \<open>After a first call on the empty cache, a call one minute later is served from the cache.
  An edit of the summary \<open>s1\<close> is then stored, and the third call returns other patterns,
  learned from it.\<close>

theorem preference_profile_cache_witness:
  "getFeedbackPatterns sample_metrics 1700000060000 warm_cache (feedback_store\<lparr>served := 2\<rparr>)
     = (quiet_patterns, warm_cache, feedback_store\<lparr>served := 2\<rparr>)
   \<and> fst (getFeedbackPatterns sample_metrics 1700000120000
            (fst (snd edit_feedback)) (snd (snd edit_feedback))) = learned_patterns
   \<and> learned_patterns \<noteq> quiet_patterns"
proof -
  have h1: "getFeedbackPatterns sample_metrics 1700000000000 initial_patterns_cache feedback_store
              = (quiet_patterns, warm_cache, feedback_store\<lparr>served := 2\<rparr>)"
    by (simp add: first_call warm_cache_def)
  have h2: "int 1700000060000 - int (fpc_lastUpdated warm_cache) < fpc_ttl"
    by (simp add: warm_cache_def fpc_ttl_def)
  have h3: "storeFeedback sample_metrics 1700000090000 (Some ''s1'') ''edited'' ''Short digest'' None
              warm_cache (feedback_store\<lparr>served := 2\<rparr>)
            = (Inr (Some \<lparr>fb_id = uuid_of 3, fb_summary_id = ''s1'', fb_rating = ''edited'',
                          fb_comment = ''Short digest'', fb_user_id = None,
                          fb_created_at = 1700000090000\<rparr>),
               fst (snd edit_feedback), snd (snd edit_feedback))"
    unfolding edit_feedback_def [symmetric] by (simp add: edit_feedback_eq)
  have d: "learned_patterns \<noteq> quiet_patterns"
    by (simp add: learned_patterns_def quiet_patterns_def)
  from preference_profile_cache [OF h1 h2 h3, of 1700000120000] third_call d
  show ?thesis by simp
qed

section \<open>Request orchestrator: retries and the fallback extraction\<close>

lemma request_loop_fail3:
  assumes "post 0 = Inl a" "post 1 = Inl b" "post 2 = Inl c"
  shows "request_loop post 0 \<lparr>attempts = 0, sleeps = []\<rparr>
           = (Inl (Error (''Failed to get AI response after 3 attempts: '' @ c)),
              \<lparr>attempts = 3, sleeps = [2000, 4000]\<rparr>)"
  using assms by (simp add: request_loop.simps maxRetries_def numeral_2_eq_2 numeral_3_eq_3)

lemma request_loop_fail2:
  assumes "post 0 = Inl a" "post 1 = Inl b" "post 2 = Inr response"
  shows "request_loop post 0 \<lparr>attempts = 0, sleeps = []\<rparr>
           = (Inr response, \<lparr>attempts = 3, sleeps = [2000, 4000]\<rparr>)"
  using assms by (simp add: request_loop.simps maxRetries_def numeral_2_eq_2 numeral_3_eq_3)

lemma processWithAI_request:
  "processWithAI tm now parse post prompt cache db =
     (let l = request_loop (post (request_of tm now prompt cache db)) 0 \<lparr>attempts = 0, sleeps = []\<rparr>
      in (rethrow (case fst l of Inl error \<Rightarrow> Inl error | Inr choices \<Rightarrow> parse_response parse choices),
          snd l, snd (getFeedbackPatterns tm now cache db)))"
  by (simp add: processWithAI_def request_of_def Let_def)

text \<open>
  Claim C2 as stated fails on the code: with an endpoint that is down, the waits after
  the first and the second failure are 2000 ms and 4000 ms, not 1000 ms and 2000 ms.
\<close>

theorem retry_backoff_counterexample:
  "fst (snd (processWithAI sample_metrics 1700000000000 parse_sample endpoint_down ''Summarize: []''
               initial_patterns_cache feedback_store))
     = \<lparr>attempts = 3, sleeps = [2000, 4000]\<rparr>
   \<and> sleeps (fst (snd (processWithAI sample_metrics 1700000000000 parse_sample endpoint_down
                         ''Summarize: []'' initial_patterns_cache feedback_store)))
     \<noteq> [1000, 2000]"
  by (simp add: processWithAI_request request_loop.simps maxRetries_def endpoint_down_def
      numeral_2_eq_2 numeral_3_eq_3 Let_def)

text \<open>
  Claim C2, amended. When the model endpoint fails on every attempt, \<open>processWithAI\<close>
  posts the request exactly 3 times, sleeps 2000 ms after the first failure and 4000 ms
  after the second (\<open>1000 * 2 ^ retries\<close> after \<open>retries\<close> has been incremented), and
  then fails with the error \<open>AI processing failed: Failed to get AI response after 3
  attempts\<close> followed by the message of the last failure. When the endpoint fails twice
  and succeeds on the third attempt, the result is that of the third response (the
  parsed value when its content is well-formed), after the same two sleeps of 2000 ms
  and 4000 ms.
\<close>

theorem retry_backoff:
  "(post (request_of tm now prompt cache db) 0 = Inl a
     \<and> post (request_of tm now prompt cache db) 1 = Inl b
     \<and> post (request_of tm now prompt cache db) 2 = Inl c
     \<longrightarrow> fst (processWithAI tm now parse post prompt cache db)
           = Inl (Error (''AI processing failed: Failed to get AI response after 3 attempts: '' @ c))
         \<and> fst (snd (processWithAI tm now parse post prompt cache db))
           = \<lparr>attempts = 3, sleeps = [2000, 4000]\<rparr>)
   \<and> (post (request_of tm now prompt cache db) 0 = Inl a
     \<and> post (request_of tm now prompt cache db) 1 = Inl b
     \<and> post (request_of tm now prompt cache db) 2 = Inr choices
     \<longrightarrow> fst (processWithAI tm now parse post prompt cache db)
           = rethrow (parse_response parse choices)
         \<and> fst (snd (processWithAI tm now parse post prompt cache db))
           = \<lparr>attempts = 3, sleeps = [2000, 4000]\<rparr>
         \<and> (\<forall>v text others. choices = Some text # others \<and> parse text = Some v
               \<longrightarrow> fst (processWithAI tm now parse post prompt cache db) = Inr v))"
proof (intro conjI impI)
  assume h: "post (request_of tm now prompt cache db) 0 = Inl a
     \<and> post (request_of tm now prompt cache db) 1 = Inl b
     \<and> post (request_of tm now prompt cache db) 2 = Inl c"
  then have l: "request_loop (post (request_of tm now prompt cache db)) 0 \<lparr>attempts = 0, sleeps = []\<rparr>
           = (Inl (Error (''Failed to get AI response after 3 attempts: '' @ c)),
              \<lparr>attempts = 3, sleeps = [2000, 4000]\<rparr>)"
    by (intro request_loop_fail3) auto
  show "fst (processWithAI tm now parse post prompt cache db)
           = Inl (Error (''AI processing failed: Failed to get AI response after 3 attempts: '' @ c))"
    by (simp add: processWithAI_request l rethrow_def)
  show "fst (snd (processWithAI tm now parse post prompt cache db))
           = \<lparr>attempts = 3, sleeps = [2000, 4000]\<rparr>"
    by (simp add: processWithAI_request l)
next
  assume h: "post (request_of tm now prompt cache db) 0 = Inl a
     \<and> post (request_of tm now prompt cache db) 1 = Inl b
     \<and> post (request_of tm now prompt cache db) 2 = Inr choices"
  then have l: "request_loop (post (request_of tm now prompt cache db)) 0 \<lparr>attempts = 0, sleeps = []\<rparr>
           = (Inr choices, \<lparr>attempts = 3, sleeps = [2000, 4000]\<rparr>)"
    by (intro request_loop_fail2) auto
  show r: "fst (processWithAI tm now parse post prompt cache db) = rethrow (parse_response parse choices)"
    by (simp add: processWithAI_request l)
  show "fst (snd (processWithAI tm now parse post prompt cache db))
           = \<lparr>attempts = 3, sleeps = [2000, 4000]\<rparr>"
    by (simp add: processWithAI_request l)
  show "\<forall>v text others. choices = Some text # others \<and> parse text = Some v
               \<longrightarrow> fst (processWithAI tm now parse post prompt cache db) = Inr v"
    by (auto simp: r parse_response_def rethrow_def)
qed

text \<open>An endpoint that is down, and one that answers the third request with an empty object.\<close>

theorem retry_backoff_witness:
  "fst (processWithAI sample_metrics 1700000000000 parse_sample endpoint_down ''Summarize: []''
          initial_patterns_cache feedback_store)
     = Inl (Error ''AI processing failed: Failed to get AI response after 3 attempts: timeout of 30000ms exceeded'')
   \<and> fst (processWithAI sample_metrics 1700000000000 parse_sample endpoint_recovering
            ''Summarize: []'' initial_patterns_cache feedback_store)
     = Inr (JObject [])
   \<and> fst (snd (processWithAI sample_metrics 1700000000000 parse_sample endpoint_recovering
                 ''Summarize: []'' initial_patterns_cache feedback_store))
     = \<lparr>attempts = 3, sleeps = [2000, 4000]\<rparr>"
proof -
  let ?rq = "request_of sample_metrics 1700000000000 ''Summarize: []'' initial_patterns_cache feedback_store"
  have d: "endpoint_down ?rq 0 = Inl ''timeout of 30000ms exceeded''
           \<and> endpoint_down ?rq 1 = Inl ''timeout of 30000ms exceeded''
           \<and> endpoint_down ?rq 2 = Inl ''timeout of 30000ms exceeded''"
    by (simp add: endpoint_down_def)
  have r: "endpoint_recovering ?rq 0 = Inl ''Request failed with status code 502''
           \<and> endpoint_recovering ?rq 1 = Inl ''Request failed with status code 502''
           \<and> endpoint_recovering ?rq 2 = Inr [Some ''{}'']"
    by (simp add: endpoint_recovering_def)
  have p: "[Some ''{}''] = Some ''{}'' # [] \<and> parse_sample ''{}'' = Some (JObject [])"
    by (simp add: parse_sample_def)
  from retry_backoff [of endpoint_down sample_metrics 1700000000000 "''Summarize: []''"
      initial_patterns_cache feedback_store "''timeout of 30000ms exceeded''"
      "''timeout of 30000ms exceeded''" "''timeout of 30000ms exceeded''" parse_sample] d
  have a: "fst (processWithAI sample_metrics 1700000000000 parse_sample endpoint_down ''Summarize: []''
          initial_patterns_cache feedback_store)
     = Inl (Error ''AI processing failed: Failed to get AI response after 3 attempts: timeout of 30000ms exceeded'')"
    by simp
  from retry_backoff [of endpoint_recovering sample_metrics 1700000000000 "''Summarize: []''"
      initial_patterns_cache feedback_store "''Request failed with status code 502''"
      "''Request failed with status code 502''" _ parse_sample "[Some ''{}'']"] r p
  have b: "fst (processWithAI sample_metrics 1700000000000 parse_sample endpoint_recovering
            ''Summarize: []'' initial_patterns_cache feedback_store) = Inr (JObject [])
   \<and> fst (snd (processWithAI sample_metrics 1700000000000 parse_sample endpoint_recovering
                 ''Summarize: []'' initial_patterns_cache feedback_store))
     = \<lparr>attempts = 3, sleeps = [2000, 4000]\<rparr>"
    by blast
  from a b show ?thesis by simp
qed

text \<open>
  Claim C3 as stated fails on the code: for a response in plain prose the result is the
  object of the three fields \<open>summary\<close>, \<open>action_items\<close> and \<open>suggested_messages\<close> and
  nothing else; there is no flag in it that could be true.
\<close>

theorem fallback_result_counterexample:
  "fst (processWithAI sample_metrics 1700000000000 parse_sample endpoint_prose ''Summarize: []''
          initial_patterns_cache feedback_store)
     = Inr (JObject [(''summary'', JString ''All quiet this week.''),
                     (''action_items'', JArray []), (''suggested_messages'', JArray [])])"
proof -
  have e: "extract_structured ''All quiet this week.''
             = JObject [(''summary'', JString ''All quiet this week.''),
                        (''action_items'', JArray []), (''suggested_messages'', JArray [])]"
    by code_simp
  show ?thesis
    by (simp add: processWithAI_request request_loop.simps maxRetries_def endpoint_prose_def
        parse_response_def parse_sample_def rethrow_def e Let_def)
qed

text \<open>
  Claim C3, amended. When the content of the model response is a text that fails to
  parse as JSON, \<open>processWithAI\<close> still returns a result: the object with exactly the
  fields \<open>summary\<close>, \<open>action_items\<close> and \<open>suggested_messages\<close> that the labelled-section
  extraction produces. Both lists are arrays, possibly empty; every item is a non-blank
  line with its leading dash removed. For plain prose without any label the summary is
  the whole text and both lists are empty. The object carries no flag that tells it from
  a parsed one.
\<close>

theorem fallback_result:
  assumes bad: "parse text = None"
    and got: "fst (request_loop (post (request_of tm now prompt cache db)) 0
                 \<lparr>attempts = 0, sleeps = []\<rparr>) = Inr (Some text # others)"
  shows "fst (processWithAI tm now parse post prompt cache db)
           = Inr (JObject
                    [(''summary'', JString (fallback_summary text)),
                     (''action_items'', JArray (map JString (fallback_action_items text))),
                     (''suggested_messages'',
                      JArray (map JString (fallback_suggested_messages text)))])
    \<and> (after_label ''summary:'' text = None \<and> after_label ''action_items:'' text = None
        \<and> after_label ''suggested_messages:'' text = None
        \<longrightarrow> fst (processWithAI tm now parse post prompt cache db)
              = Inr (JObject [(''summary'', JString text), (''action_items'', JArray []),
                              (''suggested_messages'', JArray [])]))
    \<and> (\<forall>item \<in> set (fallback_action_items text) \<union> set (fallback_suggested_messages text).
          \<exists>line. trim line \<noteq> [] \<and> item = strip_dash line)"
proof -
  have r: "fst (processWithAI tm now parse post prompt cache db) = Inr (extract_structured text)"
    using bad got by (simp add: processWithAI_request Let_def parse_response_def rethrow_def)
  have i: "\<forall>item \<in> set (fallback_action_items text) \<union> set (fallback_suggested_messages text).
          \<exists>line. trim line \<noteq> [] \<and> item = strip_dash line"
    by (auto simp: fallback_action_items_def fallback_suggested_messages_def list_items_def
        split: option.splits)
  show ?thesis
    using i by (simp add: r extract_structured_def fallback_summary_def fallback_action_items_def
        fallback_suggested_messages_def)
qed

text \<open>A response with the three labels, which is not JSON: the sections are extracted.\<close>

theorem fallback_result_witness:
  "fst (processWithAI sample_metrics 1700000000000 parse_sample endpoint_labelled ''Summarize: []''
          initial_patterns_cache feedback_store)
     = Inr (JObject [(''summary'', JString ''Busy.''),
                     (''action_items'', JArray [JString ''Call Bob'']),
                     (''suggested_messages'', JArray [JString ''Hi''])])"
proof -
  have h1: "parse_sample labelled_text = None" by (simp add: parse_sample_def labelled_text_def)
  have h2: "fst (request_loop (endpoint_labelled (request_of sample_metrics 1700000000000
                   ''Summarize: []'' initial_patterns_cache feedback_store)) 0
                 \<lparr>attempts = 0, sleeps = []\<rparr>) = Inr (Some labelled_text # [])"
    by (simp add: request_loop.simps maxRetries_def endpoint_labelled_def)
  have s: "fallback_summary labelled_text = ''Busy.''" by code_simp
  have a: "fallback_action_items labelled_text = [''Call Bob'']" by code_simp
  have m: "fallback_suggested_messages labelled_text = [''Hi'']" by code_simp
  from fallback_result [of parse_sample labelled_text endpoint_labelled sample_metrics
      1700000000000 "''Summarize: []''" initial_patterns_cache feedback_store "[]", OF h1 h2] s a m
  show ?thesis by simp
qed

end
